theory Spec2Isabelle
  imports Main "HOL-Library.AList" "HOL-Library.Sublist"
begin

section \<open>Values and shared registries\<close>

text \<open>
  The development embeds \<^verbatim>\<open>src/typescript.ts\<close>: the constructors of
  \<^verbatim>\<open>TypescriptConfig\<close>, \<^verbatim>\<open>TypeScriptProject\<close> and
  \<^verbatim>\<open>TypeScriptAppProject\<close>, and \<^verbatim>\<open>SampleCode.synthesize\<close>.
  JavaScript objects whose keys are open-ended (compiler options, the manifest, the
  object held by a JSON file) are association lists or maps from key to a JSON value.
  An options object with a fixed set of optional keys is a record; each key is absent,
  present with the value \<^verbatim>\<open>undefined\<close>, or present with a value. The two
  first are the same to \<^verbatim>\<open>??\<close>, \<^verbatim>\<open>||\<close> and \<^verbatim>\<open>!\<close>, but not to
  an object spread, which copies a key that is present whatever its value.
\<close>

datatype json =
  JUndefined | JBool bool | JString string | JArray "json list" | JObject "(string \<times> json) list"

datatype 'a optional = Absent | Undefined | Given 'a

text \<open>The value of a key, if it has one.\<close>

definition defined :: "'a optional \<Rightarrow> 'a option" where
  "defined a = (case a of Absent \<Rightarrow> None | Undefined \<Rightarrow> None | Given v \<Rightarrow> Some v)"

type_synonym TypeScriptCompilerOptions = "(string \<times> json) list"

text \<open>
  Object spread \<^verbatim>\<open>{ ...base, ...ext }\<close>: every own key of \<open>ext\<close>, in order, is
  assigned into the object built so far. A key that is already there keeps its position
  and takes the new value, a new key goes to the end. Values are copied as they are;
  nothing is merged below the first level.
\<close>

definition spread :: "('k \<times> 'v) list \<Rightarrow> ('k \<times> 'v) list \<Rightarrow> ('k \<times> 'v) list" where
  "spread base ext = foldl (\<lambda>acc (k, v). AList.update k v acc) base ext"

text \<open>The operator \<^verbatim>\<open>a ?? b\<close> on an optional value.\<close>

definition nullish :: "'a optional \<Rightarrow> 'a \<Rightarrow> 'a" where
  "nullish a b = (case a of Absent \<Rightarrow> b | Undefined \<Rightarrow> b | Given v \<Rightarrow> v)"

text \<open>
  Spread of one optional key: \<^verbatim>\<open>{ k: base, ...{ k: ext } }\<close> where \<open>ext\<close> may lack
  the key. A key that \<open>ext\<close> has wins, also when its value is
  \<^verbatim>\<open>undefined\<close>.
\<close>

definition spread_key :: "'a optional \<Rightarrow> 'a optional \<Rightarrow> 'a optional" where
  "spread_key base ext = (case ext of Absent \<Rightarrow> base | Undefined \<Rightarrow> Undefined | Given v \<Rightarrow> Given v)"

text \<open>
  Modelled from the spec: the Pattern List (class \<^verbatim>\<open>IgnoreFile\<close>, not in
  \<^verbatim>\<open>typescript.ts\<close>). An entry is a glob tagged include or exclude;
  \<^verbatim>\<open>exclude\<close> and \<^verbatim>\<open>include\<close> append entries in call order, nothing is
  ever removed and duplicates are kept.
\<close>

datatype PatternEntry = Exclude string | Include string

type_synonym IgnoreFile = "PatternEntry list"

definition IgnoreFile_exclude :: "string \<Rightarrow> IgnoreFile \<Rightarrow> IgnoreFile" where
  "IgnoreFile_exclude pat l = l @ [Exclude pat]"

definition IgnoreFile_include :: "string \<Rightarrow> IgnoreFile \<Rightarrow> IgnoreFile" where
  "IgnoreFile_include pat l = l @ [Include pat]"

text \<open>
  Modelled from the spec: the Versioned Dependency Set. A constraint is a caret or an
  arbitrary range expression (class \<^verbatim>\<open>Semver\<close>, not in \<^verbatim>\<open>typescript.ts\<close>).
\<close>

datatype Semver = Semver_caret string | Semver_range string

text \<open>
  Modelled from the spec: the Structured File Emitter for JSON (class
  \<^verbatim>\<open>JsonFile\<close>, not in \<^verbatim>\<open>typescript.ts\<close>): the target path and the held
  object.
\<close>

record JsonFile =
  jf_path :: string
  jf_obj :: json

text \<open>
  A registered component. \<^verbatim>\<open>SampleCode\<close> keeps a reference to its project and
  reads only the read-only fields \<^verbatim>\<open>srcdir\<close> and \<^verbatim>\<open>testdir\<close> of it, which
  the model stores in the component. Components of other files are opaque.
\<close>

datatype Component = SampleCode (sc_srcdir: string) (sc_testdir: string) | OtherComponent string

text \<open>
  The state of a \<^verbatim>\<open>NodeProject\<close> that \<^verbatim>\<open>typescript.ts\<close> reads or writes.
  \<^verbatim>\<open>npmignore\<close> is optional in the source (every use is \<^verbatim>\<open>npmignore?.\<close>).
  The start menu (\<^verbatim>\<open>this.start?.addEntry\<close>) is a registry of its own that
  nothing else here reads; it is left out.
\<close>

record NodeProject =
  scripts :: "string \<rightharpoonup> string list"
  gitignore :: IgnoreFile
  npmignore :: "IgnoreFile option"
  manifest :: "string \<rightharpoonup> json"
  entrypoint :: string
  files :: "JsonFile list"
  devDependencies :: "string \<rightharpoonup> Semver"
  packageManager :: string
  runScriptCommand :: string
  minNodeVersion :: "string optional"
  components :: "Component list"

text \<open>
  Modelled from the spec: the Script Registry (methods of \<^verbatim>\<open>NodeProject\<close>, not in
  \<^verbatim>\<open>typescript.ts\<close>). If the script does not exist it is created with the
  commands, otherwise the commands are appended to the existing list.
\<close>

definition script_commands :: "NodeProject \<Rightarrow> string \<Rightarrow> string list" where
  "script_commands p name = (case scripts p name of None \<Rightarrow> [] | Some cs \<Rightarrow> cs)"

definition addScriptCommand :: "string \<Rightarrow> string list \<Rightarrow> NodeProject \<Rightarrow> NodeProject" where
  "addScriptCommand name commands p =
     p\<lparr>scripts := (scripts p)(name \<mapsto> script_commands p name @ commands)\<rparr>"

definition addScript :: "string \<Rightarrow> string list \<Rightarrow> NodeProject \<Rightarrow> NodeProject" where
  "addScript name commands p = addScriptCommand name commands p"

definition addCompileCommand :: "string list \<Rightarrow> NodeProject \<Rightarrow> NodeProject" where
  "addCompileCommand commands p = addScriptCommand ''compile'' commands p"

definition addTestCommand :: "string list \<Rightarrow> NodeProject \<Rightarrow> NodeProject" where
  "addTestCommand commands p = addScriptCommand ''test'' commands p"

text \<open>\<^verbatim>\<open>TypeScriptProject.addBuildCommand\<close> (lines 295-297).\<close>

definition addBuildCommand :: "string list \<Rightarrow> NodeProject \<Rightarrow> NodeProject" where
  "addBuildCommand commands p = addScriptCommand ''build'' commands p"

text \<open>
  Modelled from the spec: \<^verbatim>\<open>addDevDependencies\<close> merges the entries in order; for
  each name the last registration wins.
\<close>

definition addDevDependencies :: "(string \<times> Semver) list \<Rightarrow> NodeProject \<Rightarrow> NodeProject" where
  "addDevDependencies deps p =
     p\<lparr>devDependencies := foldl (\<lambda>m (k, v). m(k \<mapsto> v)) (devDependencies p) deps\<rparr>"

text \<open>The calls \<^verbatim>\<open>this.gitignore.exclude(..)\<close>, \<^verbatim>\<open>this.npmignore?.exclude(..)\<close>
  and their \<^verbatim>\<open>include\<close> twins on a project.\<close>

definition gitignore_exclude :: "string \<Rightarrow> NodeProject \<Rightarrow> NodeProject" where
  "gitignore_exclude pat p = p\<lparr>gitignore := IgnoreFile_exclude pat (gitignore p)\<rparr>"

definition gitignore_include :: "string \<Rightarrow> NodeProject \<Rightarrow> NodeProject" where
  "gitignore_include pat p = p\<lparr>gitignore := IgnoreFile_include pat (gitignore p)\<rparr>"

definition npmignore_exclude :: "string \<Rightarrow> NodeProject \<Rightarrow> NodeProject" where
  "npmignore_exclude pat p = p\<lparr>npmignore := map_option (IgnoreFile_exclude pat) (npmignore p)\<rparr>"

definition npmignore_include :: "string \<Rightarrow> NodeProject \<Rightarrow> NodeProject" where
  "npmignore_include pat p = p\<lparr>npmignore := map_option (IgnoreFile_include pat) (npmignore p)\<rparr>"

text \<open>
  \<^verbatim>\<open>new JsonFile(project, fileName, { obj })\<close>: the emitter is created and
  registered with the project.
\<close>

definition JsonFile_new :: "string \<Rightarrow> json \<Rightarrow> NodeProject \<Rightarrow> JsonFile \<times> NodeProject" where
  "JsonFile_new fileName obj p =
     (let f = \<lparr>jf_path = fileName, jf_obj = obj\<rparr> in (f, p\<lparr>files := files p @ [f]\<rparr>))"

section \<open>TypescriptConfig (lines 300-322 and 603-629)\<close>

text \<open>
  \<^verbatim>\<open>TypescriptConfigOptions\<close>: \<^verbatim>\<open>fileName\<close>, \<^verbatim>\<open>include\<close> and
  \<^verbatim>\<open>exclude\<close> are optional, \<^verbatim>\<open>compilerOptions\<close> is required by the type.
\<close>

record TypescriptConfigOptions =
  opt_fileName :: "string optional"
  opt_include :: "string list optional"
  opt_exclude :: "string list optional"
  opt_compilerOptions :: TypeScriptCompilerOptions

record TypescriptConfig =
  tc_compilerOptions :: TypeScriptCompilerOptions
  tc_include :: "string list"
  tc_exclude :: "string list"
  tc_fileName :: string
  tc_file :: JsonFile

definition tsconfig_obj :: "TypeScriptCompilerOptions \<Rightarrow> string list \<Rightarrow> string list \<Rightarrow> json" where
  "tsconfig_obj co inc exc =
     JObject [(''compilerOptions'', JObject co),
              (''include'', JArray (map JString inc)),
              (''exclude'', JArray (map JString exc))]"

definition TypescriptConfig_new ::
  "TypescriptConfigOptions \<Rightarrow> NodeProject \<Rightarrow> TypescriptConfig \<times> NodeProject" where
  "TypescriptConfig_new options project =
     (let fileName = nullish (opt_fileName options) ''tsconfig.json'';
          inc = nullish (opt_include options) [''**/*.ts''];
          exc = nullish (opt_exclude options) [''node_modules''];
          co = opt_compilerOptions options;
          (file, project1) = JsonFile_new fileName (tsconfig_obj co inc exc) project;
          project2 = npmignore_exclude (''/'' @ fileName) project1
      in (\<lparr>tc_compilerOptions = co, tc_include = inc, tc_exclude = exc,
            tc_fileName = fileName, tc_file = file\<rparr>, project2))"

section \<open>Node's path module\<close>

text \<open>
  \<^verbatim>\<open>path.dirname\<close>, \<^verbatim>\<open>path.basename\<close> and \<^verbatim>\<open>path.join\<close> of
  Node.js, in their POSIX flavour (the separator is \<^verbatim>\<open>/\<close>, a backslash is an
  ordinary character). They belong to the runtime, not to the repository; the
  definitions follow the runtime's algorithms on strings.
\<close>

definition is_slash :: "char \<Rightarrow> bool" where
  "is_slash c = (c = CHR ''/'')"

fun split_slash :: "string \<Rightarrow> string list" where
  "split_slash [] = [[]]"
| "split_slash (c # cs) =
     (if is_slash c then [] # split_slash cs
      else (case split_slash cs of [] \<Rightarrow> [[c]] | w # ws \<Rightarrow> (c # w) # ws))"

fun join_slash :: "string list \<Rightarrow> string" where
  "join_slash [] = []"
| "join_slash [s] = s"
| "join_slash (s # t # ss) = s @ ''/'' @ join_slash (t # ss)"

fun normalizeSegments :: "bool \<Rightarrow> string list \<Rightarrow> string list \<Rightarrow> string list" where
  "normalizeSegments allowAboveRoot acc [] = rev acc"
| "normalizeSegments allowAboveRoot acc (s # ss) =
     (if s = [] \<or> s = ''.'' then normalizeSegments allowAboveRoot acc ss
      else if s = ''..'' then
        (case acc of
           [] \<Rightarrow> normalizeSegments allowAboveRoot (if allowAboveRoot then [''..''] else []) ss
         | a # as \<Rightarrow>
             if a \<noteq> ''..'' then normalizeSegments allowAboveRoot as ss
             else normalizeSegments allowAboveRoot (if allowAboveRoot then ''..'' # acc else acc) ss)
      else normalizeSegments allowAboveRoot (s # acc) ss)"

definition path_normalize :: "string \<Rightarrow> string" where
  "path_normalize p =
     (if p = [] then ''.''
      else
        (let isAbsolute = is_slash (hd p);
             trailingSeparator = is_slash (last p);
             r = join_slash (normalizeSegments (\<not> isAbsolute) [] (split_slash p))
         in if r = [] then (if isAbsolute then ''/'' else if trailingSeparator then ''./'' else ''.'')
            else (if isAbsolute then ''/'' else []) @ r @ (if trailingSeparator then ''/'' else [])))"

definition path_join :: "string \<Rightarrow> string \<Rightarrow> string" where
  "path_join a b =
     (if a = [] \<and> b = [] then ''.''
      else if a = [] then path_normalize b
      else if b = [] then path_normalize a
      else path_normalize (a @ ''/'' @ b))"

definition path_dirname :: "string \<Rightarrow> string" where
  "path_dirname p =
     (if p = [] then ''.''
      else
        (let hasRoot = is_slash (hd p);
             upto_slash = dropWhile (\<lambda>c. \<not> is_slash c) (dropWhile is_slash (rev (tl p)));
             end_ix = length upto_slash
         in if upto_slash = [] then (if hasRoot then ''/'' else ''.'')
            else if hasRoot \<and> end_ix = 1 then ''//''
            else take end_ix p))"

definition path_basename :: "string \<Rightarrow> string \<Rightarrow> string" where
  "path_basename p ext =
     (let r = dropWhile is_slash (rev p);
          b = rev (takeWhile (\<lambda>c. \<not> is_slash c) r)
      in if ext \<noteq> [] \<and> length ext \<le> length p then
           (if ext = p then []
            else if r = [] then p
            else if length ext < length b \<and> drop (length b - length ext) b = ext
              then take (length b - length ext) b
            else if length b < length ext \<and> drop (length ext - length b) ext = b
              then drop (length r - length b) p
            else b)
         else b)"

text \<open>\<^verbatim>\<open>s.replace(/\\/g, '/')\<close>: every backslash becomes a slash.\<close>

definition replace_backslashes :: "string \<Rightarrow> string" where
  "replace_backslashes s = map (\<lambda>c. if c = CHR 0x5C then CHR ''/'' else c) s"

section \<open>TypeScriptProject (lines 12-298)\<close>

text \<open>
  \<^verbatim>\<open>JestOptions\<close> and the options of \<^verbatim>\<open>Eslint\<close> are declared in other
  files; of \<^verbatim>\<open>JestOptions\<close> the constructor names the key \<^verbatim>\<open>typescript\<close>,
  the other keys stay opaque. \<^verbatim>\<open>TypeScriptProjectOptions\<close> extends
  \<^verbatim>\<open>NodeProjectOptions\<close>: the record has the keys of the latter that this file
  reads or sets (the first seven), the others as an association list, and the keys
  declared in lines 12-93. The fields carry the prefix \<open>o_\<close>, since the project
  has fields of the same names.
\<close>

record JestOptions =
  jo_typescript :: "TypescriptConfig optional"
  jo_other :: "(string \<times> json) list"

record EslintOptions =
  tsconfigPath :: string
  dirs :: "string list"

record TypeScriptProjectOptions =
  o_srcdir :: "string optional"
  o_libdir :: "string optional"
  o_testdir :: "string optional"
  o_entrypoint :: "string optional"
  o_allowLibraryDependencies :: "bool optional"
  o_releaseWorkflow :: "bool optional"
  o_minNodeVersion :: "string optional"
  o_other :: "(string \<times> json) list"
  o_jest :: "bool optional"
  o_jestOptions :: "JestOptions optional"
  o_eslint :: "bool optional"
  o_typescriptVersion :: "Semver optional"
  o_docgen :: "bool optional"
  o_docsDirectory :: "string optional"
  o_tsconfig :: "TypescriptConfigOptions optional"
  o_disableTsconfig :: "bool optional"
  o_compileBeforeTest :: "bool optional"
  o_sampleCode :: "bool optional"
  o_entrypointTypes :: "string optional"
  o_package :: "bool optional"

text \<open>
  \<^verbatim>\<open>class TypeScriptProject extends NodeProject\<close>: the inherited state is the field
  \<open>node\<close>. The components \<^verbatim>\<open>jest\<close> and \<^verbatim>\<open>eslint\<close> are kept as the
  options they were constructed with.
\<close>

record TypeScriptProject =
  node :: NodeProject
  docgen :: "bool optional"
  docsDirectory :: string
  eslint :: "EslintOptions option"
  jest :: "JestOptions option"
  tsconfig :: "TypescriptConfig option"
  srcdir :: string
  libdir :: string
  testdir :: string

text \<open>
  The constructors this file calls and other files define: \<^verbatim>\<open>super(options)\<close> of
  \<^verbatim>\<open>NodeProject\<close>, \<^verbatim>\<open>new Jest\<close>, \<^verbatim>\<open>new Eslint\<close> and
  \<^verbatim>\<open>new TypedocDocgen\<close>. Each receives the project and may register into its
  shared state; they are parameters of the model.
\<close>

record Collaborators =
  NodeProject_new :: "TypeScriptProjectOptions \<Rightarrow> NodeProject"
  Jest_new :: "JestOptions \<Rightarrow> NodeProject \<Rightarrow> NodeProject"
  Eslint_new :: "EslintOptions \<Rightarrow> NodeProject \<Rightarrow> NodeProject"
  TypedocDocgen_new :: "TypeScriptProject \<Rightarrow> NodeProject"

text \<open>JavaScript truthiness of an optional boolean and of an optional string.\<close>

definition truthy_bool :: "bool optional \<Rightarrow> bool" where
  "truthy_bool b = (b = Given True)"

definition truthy_string :: "string optional \<Rightarrow> bool" where
  "truthy_string s = (case s of Absent \<Rightarrow> False | Undefined \<Rightarrow> False | Given v \<Rightarrow> v \<noteq> [])"

text \<open>The constant \<^verbatim>\<open>compilerOptions\<close> of lines 176-197.\<close>

definition compilerOptions :: TypeScriptCompilerOptions where
  "compilerOptions =
     [(''alwaysStrict'', JBool True),
      (''declaration'', JBool True),
      (''experimentalDecorators'', JBool True),
      (''inlineSourceMap'', JBool True),
      (''inlineSources'', JBool True),
      (''lib'', JArray [JString ''es2018'']),
      (''module'', JString ''CommonJS''),
      (''noEmitOnError'', JBool False),
      (''noFallthroughCasesInSwitch'', JBool True),
      (''noImplicitAny'', JBool True),
      (''noImplicitReturns'', JBool True),
      (''noImplicitThis'', JBool True),
      (''noUnusedLocals'', JBool True),
      (''noUnusedParameters'', JBool True),
      (''resolveJsonModule'', JBool True),
      (''strict'', JBool True),
      (''strictNullChecks'', JBool True),
      (''strictPropertyInitialization'', JBool True),
      (''stripInternal'', JBool True),
      (''target'', JString ''ES2018'')]"

text \<open>
  The spread \<^verbatim>\<open>{ include, exclude, compilerOptions, ...options.tsconfig }\<close> of lines
  200-212. Spreading an absent or undefined \<^verbatim>\<open>options.tsconfig\<close> copies nothing;
  when it is there, the keys it has win one by one, also a key whose value is
  \<^verbatim>\<open>undefined\<close>, and \<^verbatim>\<open>compilerOptions\<close>, which its type requires, always
  wins as a whole: the value of a key is copied, never merged.
\<close>

definition spread_TypescriptConfigOptions ::
  "TypescriptConfigOptions \<Rightarrow> TypescriptConfigOptions optional \<Rightarrow> TypescriptConfigOptions" where
  "spread_TypescriptConfigOptions base ext =
     (case defined ext of
        None \<Rightarrow> base
      | Some e \<Rightarrow>
          \<lparr>opt_fileName = spread_key (opt_fileName base) (opt_fileName e),
           opt_include = spread_key (opt_include base) (opt_include e),
           opt_exclude = spread_key (opt_exclude base) (opt_exclude e),
           opt_compilerOptions = opt_compilerOptions e\<rparr>)"

text \<open>The spread \<^verbatim>\<open>{ typescript: tsconfig, ...options.jestOptions }\<close> of lines 261-262.\<close>

definition spread_JestOptions :: "TypescriptConfig \<Rightarrow> JestOptions optional \<Rightarrow> JestOptions" where
  "spread_JestOptions tsc ext =
     (case defined ext of
        None \<Rightarrow> \<lparr>jo_typescript = Given tsc, jo_other = []\<rparr>
      | Some e \<Rightarrow> \<lparr>jo_typescript = spread_key (Given tsc) (jo_typescript e), jo_other = jo_other e\<rparr>)"

text \<open>Lines 122-129: the super constructor and the fields read from the options.\<close>

definition ctor_fields :: "Collaborators \<Rightarrow> TypeScriptProjectOptions \<Rightarrow> TypeScriptProject" where
  "ctor_fields env options =
     \<lparr>node = NodeProject_new env options,
      docgen = o_docgen options,
      docsDirectory = nullish (o_docsDirectory options) ''docs/'',
      eslint = None,
      jest = None,
      tsconfig = None,
      srcdir = nullish (o_srcdir options) ''src'',
      libdir = nullish (o_libdir options) ''lib'',
      testdir = nullish (o_testdir options) ''test''\<rparr>"

text \<open>Lines 131-170: the compile, watch, build and package scripts.\<close>

definition ctor_scripts :: "TypeScriptProjectOptions \<Rightarrow> NodeProject \<Rightarrow> NodeProject" where
  "ctor_scripts options p0 =
     (let p1 = addCompileCommand [''tsc''] p0;
          p2 = addScript ''watch'' [''tsc -w''] p1;
          compileBeforeTest = nullish (o_compileBeforeTest options) False;
          p3 = (if compileBeforeTest
                then addBuildCommand [runScriptCommand p2 @ '' compile'', runScriptCommand p2 @ '' test''] p2
                else addBuildCommand [runScriptCommand p2 @ '' test'', runScriptCommand p2 @ '' compile''] p2)
      in if nullish (o_package options) True
         then addBuildCommand [runScriptCommand p3 @ '' package'']
                (addScript ''package''
                   [''rm -fr dist'', ''mkdir -p dist/js'', packageManager p3 @ '' pack'', ''mv *.tgz dist/js/'']
                   p3)
         else p3)"

text \<open>Lines 172-174: the \<^verbatim>\<open>types\<close> field of the manifest.\<close>

definition entrypoint_types :: "string \<Rightarrow> string" where
  "entrypoint_types e =
     replace_backslashes (path_join (path_dirname e) (path_basename e ''.js'')) @ ''.d.ts''"

definition ctor_types :: "TypeScriptProjectOptions \<Rightarrow> NodeProject \<Rightarrow> NodeProject" where
  "ctor_types options p =
     (if truthy_string (o_entrypointTypes options) \<or> entrypoint p \<noteq> []
      then p\<lparr>manifest := (manifest p)(''types'' \<mapsto>
               JString (nullish (o_entrypointTypes options) (entrypoint_types (entrypoint p))))\<rparr>
      else p)"

text \<open>Lines 199-213: the main \<^verbatim>\<open>tsconfig.json\<close>.\<close>

definition main_tsconfig_options :: "TypeScriptProjectOptions \<Rightarrow> TypeScriptProject \<Rightarrow> TypescriptConfigOptions" where
  "main_tsconfig_options options t =
     spread_TypescriptConfigOptions
       \<lparr>opt_fileName = Absent,
        opt_include = Given [srcdir t @ ''/**/*.ts''],
        opt_exclude = Given [''node_modules'', libdir t],
        opt_compilerOptions =
          spread [(''rootDir'', JString (srcdir t)), (''outDir'', JString (libdir t))] compilerOptions\<rparr>
       (o_tsconfig options)"

definition ctor_tsconfig :: "TypeScriptProjectOptions \<Rightarrow> TypeScriptProject \<Rightarrow> TypeScriptProject" where
  "ctor_tsconfig options t =
     (if \<not> truthy_bool (o_disableTsconfig options)
      then (let (c, p) = TypescriptConfig_new (main_tsconfig_options options t) (node t)
            in t\<lparr>node := p, tsconfig := Some c\<rparr>)
      else t)"

text \<open>Lines 215-230: the ignore patterns.\<close>

definition ctor_ignores :: "string \<Rightarrow> string \<Rightarrow> NodeProject \<Rightarrow> NodeProject" where
  "ctor_ignores src lib p0 =
     (let p1 = gitignore_exclude (''/'' @ lib) p0;
          p2 = npmignore_include (''/'' @ lib) p1;
          p3 = gitignore_include (''/'' @ src) p2;
          p4 = npmignore_exclude (''/'' @ src) p3;
          p5 = npmignore_include (''/'' @ lib @ ''/**/*.js'') p4;
          p6 = npmignore_include (''/'' @ lib @ ''/**/*.d.ts'') p5;
          p7 = gitignore_exclude ''/dist'' p6;
          p8 = npmignore_exclude ''dist'' p7;
          p9 = npmignore_exclude ''/tsconfig.json'' p8;
          p10 = npmignore_exclude ''/.github'' p9;
          p11 = npmignore_exclude ''/.vscode'' p10
      in npmignore_exclude ''/.projenrc.js'' p11)"

text \<open>
  Lines 232-267: the test tooling. The result carries \<^verbatim>\<open>eslintTsConfig\<close>, the
  local variable that line 250 overwrites.
\<close>

definition jest_tsconfig_options :: "TypeScriptProject \<Rightarrow> TypescriptConfigOptions" where
  "jest_tsconfig_options t =
     \<lparr>opt_fileName = Given ''tsconfig.jest.json'',
      opt_include = Given [srcdir t @ ''/**/*.ts'', testdir t @ ''/**/*.ts''],
      opt_exclude = Given [''node_modules''],
      opt_compilerOptions = compilerOptions\<rparr>"

definition ctor_jest ::
  "Collaborators \<Rightarrow> TypeScriptProjectOptions \<Rightarrow> TypeScriptProject \<Rightarrow> string \<times> TypeScriptProject" where
  "ctor_jest env options t =
     (if nullish (o_jest options) True
      then (let (tsc, p1) = TypescriptConfig_new (jest_tsconfig_options t) (node t);
                eslintTsConfig = tc_fileName tsc;
                p2 = (if \<not> nullish (o_compileBeforeTest options) False
                      then addTestCommand [''rm -fr '' @ libdir t @ ''/''] p1
                      else p1);
                jestOptions = spread_JestOptions tsc (o_jestOptions options);
                p3 = Jest_new env jestOptions p2;
                p4 = gitignore_include (''/'' @ testdir t) p3;
                p5 = npmignore_exclude (''/'' @ testdir t) p4
            in (eslintTsConfig, t\<lparr>node := p5, jest := Some jestOptions\<rparr>))
      else (''tsconfig.json'', t))"

text \<open>Lines 269-274: the lint tooling.\<close>

definition ctor_eslint ::
  "Collaborators \<Rightarrow> TypeScriptProjectOptions \<Rightarrow> string \<Rightarrow> TypeScriptProject \<Rightarrow> TypeScriptProject" where
  "ctor_eslint env options eslintTsConfig t =
     (if nullish (o_eslint options) True
      then (let eo = \<lparr>tsconfigPath = ''./'' @ eslintTsConfig, dirs = [srcdir t, testdir t]\<rparr>
            in t\<lparr>node := Eslint_new env eo (node t), eslint := Some eo\<rparr>)
      else t)"

text \<open>
  Modelled from the spec: the constructor of \<^verbatim>\<open>Component\<close> (not in
  \<^verbatim>\<open>typescript.ts\<close>), which the constructor of \<^verbatim>\<open>SampleCode\<close> calls
  (lines 635-639), registers the component with its project.
\<close>

definition SampleCode_new :: "TypeScriptProject \<Rightarrow> TypeScriptProject" where
  "SampleCode_new t =
     t\<lparr>node := (node t)\<lparr>components := components (node t) @ [SampleCode (srcdir t) (testdir t)]\<rparr>\<rparr>"

text \<open>
  Lines 276-288: the development dependencies, the sample code and the documentation
  generator.
\<close>

definition ctor_rest :: "Collaborators \<Rightarrow> TypeScriptProjectOptions \<Rightarrow> TypeScriptProject \<Rightarrow> TypeScriptProject" where
  "ctor_rest env options t =
     (let t1 = t\<lparr>node := addDevDependencies
                   [(''typescript'', nullish (o_typescriptVersion options) (Semver_caret ''3.9.5'')),
                    (''@types/node'', Semver_caret (nullish (minNodeVersion (node t)) ''10.17.0''))]
                   (node t)\<rparr>;
          t2 = (if nullish (o_sampleCode options) True then SampleCode_new t1 else t1)
      in if truthy_bool (docgen t2) then t2\<lparr>node := TypedocDocgen_new env t2\<rparr> else t2)"

text \<open>The constructor of \<^verbatim>\<open>TypeScriptProject\<close>, lines 121-289.\<close>

definition TypeScriptProject_new :: "Collaborators \<Rightarrow> TypeScriptProjectOptions \<Rightarrow> TypeScriptProject" where
  "TypeScriptProject_new env options =
     (let t0 = ctor_fields env options;
          t1 = t0\<lparr>node := ctor_scripts options (node t0)\<rparr>;
          t2 = t1\<lparr>node := ctor_types options (node t1)\<rparr>;
          t3 = ctor_tsconfig options t2;
          t4 = t3\<lparr>node := ctor_ignores (srcdir t3) (libdir t3) (node t3)\<rparr>;
          (eslintTsConfig, t5) = ctor_jest env options t4;
          t6 = ctor_eslint env options eslintTsConfig t5
      in ctor_rest env options t6)"

text \<open>The constructor of \<^verbatim>\<open>TypeScriptAppProject\<close>, lines 681-691.\<close>

definition TypeScriptAppProject_new :: "Collaborators \<Rightarrow> TypeScriptProjectOptions \<Rightarrow> TypeScriptProject" where
  "TypeScriptAppProject_new env options =
     TypeScriptProject_new env
       (options\<lparr>o_allowLibraryDependencies := spread_key (Given False) (o_allowLibraryDependencies options),
                o_releaseWorkflow := spread_key (Given False) (o_releaseWorkflow options),
                o_entrypoint := spread_key (Given []) (o_entrypoint options),
                o_package := spread_key (Given False) (o_package options)\<rparr>)"

section \<open>SampleCode (lines 632-674)\<close>

text \<open>
  The file system that \<^verbatim>\<open>synthesize\<close> reads and writes is a tree of directories
  and files. A path string is resolved from the root of the tree, which is also the
  working directory, so empty segments, \<^verbatim>\<open>.\<close> and the leading \<^verbatim>\<open>..\<close> that
  \<^verbatim>\<open>path.join\<close> may leave are skipped.
\<close>

datatype fs_node = File string | Dir "(string \<times> fs_node) list"

datatype fs_error = ENOENT | ENOTDIR | EEXIST | EISDIR

definition path_segments :: "string \<Rightarrow> string list" where
  "path_segments p = filter (\<lambda>s. s \<noteq> [] \<and> s \<noteq> ''.'' \<and> s \<noteq> ''..'') (split_slash p)"

fun fs_lookup :: "fs_node \<Rightarrow> string list \<Rightarrow> fs_node option"
  and fs_lookup_entries :: "(string \<times> fs_node) list \<Rightarrow> string \<Rightarrow> string list \<Rightarrow> fs_node option" where
  "fs_lookup n [] = Some n"
| "fs_lookup (File c) (s # ss) = None"
| "fs_lookup (Dir es) (s # ss) = fs_lookup_entries es s ss"
| "fs_lookup_entries [] s ss = None"
| "fs_lookup_entries ((k, n) # es) s ss =
     (if k = s then fs_lookup n ss else fs_lookup_entries es s ss)"

text \<open>\<^verbatim>\<open>fs.pathExistsSync\<close>: true for a file and for a directory.\<close>

definition pathExistsSync :: "string \<Rightarrow> fs_node \<Rightarrow> bool" where
  "pathExistsSync p fs = (fs_lookup fs (path_segments p) \<noteq> None)"

text \<open>\<^verbatim>\<open>fs.readdirSync\<close>: the names in a directory; it throws on anything else.\<close>

definition readdirSync :: "string \<Rightarrow> fs_node \<Rightarrow> fs_error + string list" where
  "readdirSync p fs =
     (case fs_lookup fs (path_segments p) of
        None \<Rightarrow> Inl ENOENT
      | Some (File c) \<Rightarrow> Inl ENOTDIR
      | Some (Dir es) \<Rightarrow> Inr (map fst es))"

fun fresh_dirs :: "string list \<Rightarrow> fs_node" where
  "fresh_dirs [] = Dir []"
| "fresh_dirs (s # ss) = Dir [(s, fresh_dirs ss)]"

text \<open>
  \<^verbatim>\<open>fs.mkdirpSync\<close>: the directory and every missing ancestor are created; a file
  on the way is an error.
\<close>

fun mkdirp :: "fs_node \<Rightarrow> string list \<Rightarrow> fs_error + fs_node"
  and mkdirp_entries ::
    "(string \<times> fs_node) list \<Rightarrow> string \<Rightarrow> string list \<Rightarrow> fs_error + (string \<times> fs_node) list" where
  "mkdirp (Dir es) [] = Inr (Dir es)"
| "mkdirp (File c) [] = Inl EEXIST"
| "mkdirp (File c) (s # ss) = Inl ENOTDIR"
| "mkdirp (Dir es) (s # ss) =
     (case mkdirp_entries es s ss of Inl e \<Rightarrow> Inl e | Inr es' \<Rightarrow> Inr (Dir es'))"
| "mkdirp_entries [] s ss = Inr [(s, fresh_dirs ss)]"
| "mkdirp_entries ((k, n) # es) s ss =
     (if k = s
      then (case mkdirp n ss of Inl e \<Rightarrow> Inl e | Inr n' \<Rightarrow> Inr ((k, n') # es))
      else (case mkdirp_entries es s ss of Inl e \<Rightarrow> Inl e | Inr es' \<Rightarrow> Inr ((k, n) # es')))"

definition mkdirpSync :: "string \<Rightarrow> fs_node \<Rightarrow> fs_error + fs_node" where
  "mkdirpSync p fs = mkdirp fs (path_segments p)"

text \<open>
  \<^verbatim>\<open>fs.writeFileSync\<close>: the file is created or overwritten in an existing
  directory.
\<close>

fun writeFile :: "fs_node \<Rightarrow> string list \<Rightarrow> string \<Rightarrow> fs_error + fs_node"
  and writeFile_entries ::
    "(string \<times> fs_node) list \<Rightarrow> string \<Rightarrow> string list \<Rightarrow> string \<Rightarrow> fs_error + (string \<times> fs_node) list" where
  "writeFile (File c) [] d = Inr (File d)"
| "writeFile (Dir es) [] d = Inl EISDIR"
| "writeFile (File c) (s # ss) d = Inl ENOTDIR"
| "writeFile (Dir es) (s # ss) d =
     (case writeFile_entries es s ss d of Inl e \<Rightarrow> Inl e | Inr es' \<Rightarrow> Inr (Dir es'))"
| "writeFile_entries [] s ss d = (if ss = [] then Inr [(s, File d)] else Inl ENOENT)"
| "writeFile_entries ((k, n) # es) s ss d =
     (if k = s
      then (case writeFile n ss d of Inl e \<Rightarrow> Inl e | Inr n' \<Rightarrow> Inr ((k, n') # es))
      else (case writeFile_entries es s ss d of Inl e \<Rightarrow> Inl e | Inr es' \<Rightarrow> Inr ((k, n) # es')))"

definition writeFileSync :: "string \<Rightarrow> string \<Rightarrow> fs_node \<Rightarrow> fs_error + fs_node" where
  "writeFileSync p d fs = writeFile fs (path_segments p) d"

text \<open>\<^verbatim>\<open>x.endsWith('.ts')\<close> and \<^verbatim>\<open>lines.join('\n')\<close>.\<close>

definition endsWith :: "string \<Rightarrow> string \<Rightarrow> bool" where
  "endsWith x searchString =
     (length searchString \<le> length x \<and> drop (length x - length searchString) x = searchString)"

fun join_lines :: "string list \<Rightarrow> string" where
  "join_lines [] = []"
| "join_lines [l] = l"
| "join_lines (l # m # ls) = l @ [CHR 0x0A] @ join_lines (m # ls)"

text \<open>An array is an object: it is truthy whatever it holds, also when it is empty.\<close>

definition truthy_array :: "'a list \<Rightarrow> bool" where
  "truthy_array xs = True"

text \<open>
  The guard \<^verbatim>\<open>fs.pathExistsSync(d) && fs.readdirSync(d).filter(x => x.endsWith('.ts'))\<close>
  of lines 643 and 659, as the condition of an \<^verbatim>\<open>if\<close>.
\<close>

definition has_ts_guard :: "string \<Rightarrow> fs_node \<Rightarrow> fs_error + bool" where
  "has_ts_guard d fs =
     (if pathExistsSync d fs
      then (case readdirSync d fs of
              Inl e \<Rightarrow> Inl e
            | Inr names \<Rightarrow> Inr (truthy_array (filter (\<lambda>x. endsWith x ''.ts'') names)))
      else Inr False)"

definition srcCode :: "string list" where
  "srcCode =
     [''export class Hello {'',
      ''  public sayHello() {'',
      ''    return '' @ [CHR 0x27] @ ''hello, world!'' @ [CHR 0x27],
      ''  }'',
      ''}'']"

definition testCode :: "string list" where
  "testCode =
     [''import { Hello } from '' @ [CHR 0x27] @ ''../src'' @ [CHR 0x27],
      [],
      ''test('' @ [CHR 0x27] @ ''hello'' @ [CHR 0x27] @ '', () => {'',
      ''  expect(new Hello().sayHello()).toBe('' @ [CHR 0x27] @ ''hello, world!'' @ [CHR 0x27] @ '');'',
      ''});'']"

text \<open>
  \<^verbatim>\<open>SampleCode.synthesize(outdir)\<close>. An exception carries the file system as it
  was when it was thrown; a normal return carries the final file system.
\<close>

definition synthesize_test :: "string \<Rightarrow> string \<Rightarrow> fs_node \<Rightarrow> (fs_error \<times> fs_node) + fs_node" where
  "synthesize_test td outdir fs =
     (let testdir = path_join outdir td in
      case has_ts_guard testdir fs of
        Inl e \<Rightarrow> Inl (e, fs)
      | Inr True \<Rightarrow> Inr fs
      | Inr False \<Rightarrow>
          (case mkdirpSync testdir fs of
             Inl e \<Rightarrow> Inl (e, fs)
           | Inr fs1 \<Rightarrow>
               (case writeFileSync (path_join testdir ''hello.test.ts'') (join_lines testCode) fs1 of
                  Inl e \<Rightarrow> Inl (e, fs1)
                | Inr fs2 \<Rightarrow> Inr fs2)))"

definition synthesize :: "Component \<Rightarrow> string \<Rightarrow> fs_node \<Rightarrow> (fs_error \<times> fs_node) + fs_node" where
  "synthesize c outdir fs =
     (let srcdir = path_join outdir (sc_srcdir c) in
      case has_ts_guard srcdir fs of
        Inl e \<Rightarrow> Inl (e, fs)
      | Inr True \<Rightarrow> Inr fs
      | Inr False \<Rightarrow>
          (case mkdirpSync srcdir fs of
             Inl e \<Rightarrow> Inl (e, fs)
           | Inr fs1 \<Rightarrow>
               (case writeFileSync (path_join srcdir ''index.ts'') (join_lines srcCode) fs1 of
                  Inl e \<Rightarrow> Inl (e, fs1)
                | Inr fs2 \<Rightarrow> synthesize_test (sc_testdir c) outdir fs2)))"

section \<open>Collaborators: what the theorems assume, and an instance to evaluate\<close>

text \<open>
  A property of the shared project state is preserved by the collaborators when none of
  the constructors of the other files breaks it.
\<close>

definition preserves :: "Collaborators \<Rightarrow> (NodeProject \<Rightarrow> bool) \<Rightarrow> bool" where
  "preserves env I \<longleftrightarrow>
     (\<forall>a p. I p \<longrightarrow> I (Jest_new env a p)) \<and>
     (\<forall>a p. I p \<longrightarrow> I (Eslint_new env a p)) \<and>
     (\<forall>t. I (node t) \<longrightarrow> I (TypedocDocgen_new env t))"

text \<open>
  An instance for evaluation: a fresh project with a package-ignore list, the entrypoint
  \<^verbatim>\<open>lib/index.js\<close> unless the options name one, and yarn; a test runner and a linter
  that register a test command, an ignore pattern and a file of their own; a
  documentation generator that registers a script. It stands in for the other files of
  the repository and follows none of them line by line.
\<close>

definition stub_NodeProject :: "TypeScriptProjectOptions \<Rightarrow> NodeProject" where
  "stub_NodeProject options =
     \<lparr>scripts = Map.empty,
      gitignore = [],
      npmignore = Some [],
      manifest = Map.empty,
      entrypoint = nullish (o_entrypoint options) ''lib/index.js'',
      files = [],
      devDependencies = Map.empty,
      packageManager = ''yarn'',
      runScriptCommand = ''yarn run'',
      minNodeVersion = o_minNodeVersion options,
      components = []\<rparr>"


definition stub_collaborators :: Collaborators where
  "stub_collaborators =
     \<lparr>NodeProject_new = stub_NodeProject,
      Jest_new = (\<lambda>jo p. gitignore_exclude ''/coverage'' (addTestCommand [''jest''] p)),
      Eslint_new = (\<lambda>eo p. snd (JsonFile_new ''.eslintrc.json''
                      (JObject [(''project'', JString (tsconfigPath eo))])
                      (addTestCommand [''eslint''] p))),
      TypedocDocgen_new = (\<lambda>t. addScript ''docgen'' [''typedoc --out '' @ docsDirectory t] (node t))\<rparr>"

definition no_options :: TypeScriptProjectOptions where
  "no_options =
     \<lparr>o_srcdir = Absent, o_libdir = Absent, o_testdir = Absent, o_entrypoint = Absent,
      o_allowLibraryDependencies = Absent, o_releaseWorkflow = Absent, o_minNodeVersion = Absent,
      o_other = [], o_jest = Absent, o_jestOptions = Absent, o_eslint = Absent,
      o_typescriptVersion = Absent, o_docgen = Absent, o_docsDirectory = Absent, o_tsconfig = Absent,
      o_disableTsconfig = Absent, o_compileBeforeTest = Absent, o_sampleCode = Absent,
      o_entrypointTypes = Absent, o_package = Absent\<rparr>"

section \<open>Auxiliary definitions for the statements\<close>

text \<open>The project as it stands after line 230, before the test tooling is set up.\<close>

definition after_ignores :: "Collaborators \<Rightarrow> TypeScriptProjectOptions \<Rightarrow> TypeScriptProject" where
  "after_ignores env options =
     (let t0 = ctor_fields env options;
          t1 = t0\<lparr>node := ctor_scripts options (node t0)\<rparr>;
          t2 = t1\<lparr>node := ctor_types options (node t1)\<rparr>;
          t3 = ctor_tsconfig options t2
      in t3\<lparr>node := ctor_ignores (srcdir t3) (libdir t3) (node t3)\<rparr>)"

text \<open>
  The merge of compiler options as the specification words it (section 4.5): the
  hard-coded defaults, then the computed \<^verbatim>\<open>rootDir\<close> and \<^verbatim>\<open>outDir\<close>, then the
  caller's compiler options, later layers winning key by key.
\<close>

definition layered_compilerOptions ::
  "string \<Rightarrow> string \<Rightarrow> TypeScriptCompilerOptions \<Rightarrow> TypeScriptCompilerOptions" where
  "layered_compilerOptions src lib overrides =
     spread (spread compilerOptions [(''rootDir'', JString src), (''outDir'', JString lib)]) overrides"

text \<open>
  The app preset as the specification words it (section 9): a set of option defaults,
  overridden key by key by the caller's options.
\<close>

definition app_preset_defaults :: TypeScriptProjectOptions where
  "app_preset_defaults =
     no_options\<lparr>o_entrypoint := Given [], o_package := Given False,
                o_allowLibraryDependencies := Given False, o_releaseWorkflow := Given False\<rparr>"

definition override_options ::
  "TypeScriptProjectOptions \<Rightarrow> TypeScriptProjectOptions \<Rightarrow> TypeScriptProjectOptions" where
  "override_options d c =
     \<lparr>o_srcdir = spread_key (o_srcdir d) (o_srcdir c),
      o_libdir = spread_key (o_libdir d) (o_libdir c),
      o_testdir = spread_key (o_testdir d) (o_testdir c),
      o_entrypoint = spread_key (o_entrypoint d) (o_entrypoint c),
      o_allowLibraryDependencies = spread_key (o_allowLibraryDependencies d) (o_allowLibraryDependencies c),
      o_releaseWorkflow = spread_key (o_releaseWorkflow d) (o_releaseWorkflow c),
      o_minNodeVersion = spread_key (o_minNodeVersion d) (o_minNodeVersion c),
      o_other = spread (o_other d) (o_other c),
      o_jest = spread_key (o_jest d) (o_jest c),
      o_jestOptions = spread_key (o_jestOptions d) (o_jestOptions c),
      o_eslint = spread_key (o_eslint d) (o_eslint c),
      o_typescriptVersion = spread_key (o_typescriptVersion d) (o_typescriptVersion c),
      o_docgen = spread_key (o_docgen d) (o_docgen c),
      o_docsDirectory = spread_key (o_docsDirectory d) (o_docsDirectory c),
      o_tsconfig = spread_key (o_tsconfig d) (o_tsconfig c),
      o_disableTsconfig = spread_key (o_disableTsconfig d) (o_disableTsconfig c),
      o_compileBeforeTest = spread_key (o_compileBeforeTest d) (o_compileBeforeTest c),
      o_sampleCode = spread_key (o_sampleCode d) (o_sampleCode c),
      o_entrypointTypes = spread_key (o_entrypointTypes d) (o_entrypointTypes c),
      o_package = spread_key (o_package d) (o_package c)\<rparr>"

text \<open>
  A plain path segment: not empty, without a separator or a backslash, and neither
  \<^verbatim>\<open>.\<close> nor \<^verbatim>\<open>..\<close>.
\<close>

definition simple_name :: "string \<Rightarrow> bool" where
  "simple_name s \<longleftrightarrow>
     s \<noteq> [] \<and> CHR ''/'' \<notin> set s \<and> CHR 0x5C \<notin> set s \<and> s \<noteq> ''.'' \<and> s \<noteq> ''..''"

section \<open>Helper lemmas\<close>

lemma nullish_simps: "nullish Absent b = b" "nullish Undefined b = b" "nullish (Given a) b = a"
  by (simp_all add: nullish_def)

lemma spread_key_simps:
  "spread_key b Absent = b" "spread_key b Undefined = Undefined" "spread_key b (Given a) = Given a"
  by (simp_all add: spread_key_def)

lemma no_options_simps:
  "o_srcdir no_options = Absent" "o_libdir no_options = Absent" "o_testdir no_options = Absent"
  "o_entrypoint no_options = Absent" "o_allowLibraryDependencies no_options = Absent"
  "o_releaseWorkflow no_options = Absent" "o_minNodeVersion no_options = Absent"
  "o_other no_options = []" "o_jest no_options = Absent" "o_jestOptions no_options = Absent"
  "o_eslint no_options = Absent" "o_typescriptVersion no_options = Absent"
  "o_docgen no_options = Absent" "o_docsDirectory no_options = Absent" "o_tsconfig no_options = Absent"
  "o_disableTsconfig no_options = Absent" "o_compileBeforeTest no_options = Absent"
  "o_sampleCode no_options = Absent" "o_entrypointTypes no_options = Absent"
  "o_package no_options = Absent"
  by (simp_all add: no_options_def)

lemma fst_TypescriptConfig_new:
  "fst (TypescriptConfig_new options p) =
     \<lparr>tc_compilerOptions = opt_compilerOptions options,
      tc_include = nullish (opt_include options) [''**/*.ts''],
      tc_exclude = nullish (opt_exclude options) [''node_modules''],
      tc_fileName = nullish (opt_fileName options) ''tsconfig.json'',
      tc_file = \<lparr>jf_path = nullish (opt_fileName options) ''tsconfig.json'',
                 jf_obj = tsconfig_obj (opt_compilerOptions options)
                            (nullish (opt_include options) [''**/*.ts''])
                            (nullish (opt_exclude options) [''node_modules''])\<rparr>\<rparr>"
  by (simp add: TypescriptConfig_new_def JsonFile_new_def Let_def)

lemma ctor_rest_fields:
  "eslint (ctor_rest env options t) = eslint t"
  "jest (ctor_rest env options t) = jest t"
  "tsconfig (ctor_rest env options t) = tsconfig t"
  "srcdir (ctor_rest env options t) = srcdir t"
  "libdir (ctor_rest env options t) = libdir t"
  "testdir (ctor_rest env options t) = testdir t"
  by (simp_all add: ctor_rest_def SampleCode_new_def Let_def)

lemma ctor_eslint_fields:
  "eslint (ctor_eslint env options e t) =
     (if nullish (o_eslint options) True
      then Some \<lparr>tsconfigPath = ''./'' @ e, dirs = [srcdir t, testdir t]\<rparr> else eslint t)"
  "jest (ctor_eslint env options e t) = jest t"
  "tsconfig (ctor_eslint env options e t) = tsconfig t"
  "srcdir (ctor_eslint env options e t) = srcdir t"
  "libdir (ctor_eslint env options e t) = libdir t"
  "testdir (ctor_eslint env options e t) = testdir t"
  by (simp_all add: ctor_eslint_def Let_def)

lemma ctor_jest_fields:
  "fst (ctor_jest env options t) =
     (if nullish (o_jest options) True then ''tsconfig.jest.json'' else ''tsconfig.json'')"
  "eslint (snd (ctor_jest env options t)) = eslint t"
  "jest (snd (ctor_jest env options t)) =
     (if nullish (o_jest options) True
      then Some (spread_JestOptions (fst (TypescriptConfig_new (jest_tsconfig_options t) (node t)))
                   (o_jestOptions options))
      else jest t)"
  "tsconfig (snd (ctor_jest env options t)) = tsconfig t"
  "srcdir (snd (ctor_jest env options t)) = srcdir t"
  "libdir (snd (ctor_jest env options t)) = libdir t"
  "testdir (snd (ctor_jest env options t)) = testdir t"
  by (simp_all add: ctor_jest_def Let_def split_beta fst_TypescriptConfig_new
      jest_tsconfig_options_def nullish_def)

lemma ctor_tsconfig_fields:
  "eslint (ctor_tsconfig options t) = eslint t"
  "jest (ctor_tsconfig options t) = jest t"
  "tsconfig (ctor_tsconfig options t) =
     (if \<not> truthy_bool (o_disableTsconfig options)
      then Some (fst (TypescriptConfig_new (main_tsconfig_options options t) (node t)))
      else tsconfig t)"
  "srcdir (ctor_tsconfig options t) = srcdir t"
  "libdir (ctor_tsconfig options t) = libdir t"
  "testdir (ctor_tsconfig options t) = testdir t"
  by (simp_all add: ctor_tsconfig_def Let_def split_beta)

lemma ctor_fields_fields:
  "eslint (ctor_fields env options) = None"
  "jest (ctor_fields env options) = None"
  "tsconfig (ctor_fields env options) = None"
  "srcdir (ctor_fields env options) = nullish (o_srcdir options) ''src''"
  "libdir (ctor_fields env options) = nullish (o_libdir options) ''lib''"
  "testdir (ctor_fields env options) = nullish (o_testdir options) ''test''"
  "node (ctor_fields env options) = NodeProject_new env options"
  by (simp_all add: ctor_fields_def)

lemmas ctor_field_simps = ctor_rest_fields ctor_eslint_fields ctor_jest_fields
  ctor_tsconfig_fields ctor_fields_fields

lemma ctor_jest_inv:
  assumes "preserves env I" and "I (node t)"
    and "\<And>p. I p \<Longrightarrow> I (snd (TypescriptConfig_new (jest_tsconfig_options t) p))"
    and "\<And>p. \<not> nullish (o_compileBeforeTest options) False \<Longrightarrow> I p \<Longrightarrow>
           I (addTestCommand [''rm -fr '' @ libdir t @ ''/''] p)"
    and "\<And>x p. I p \<Longrightarrow> I (gitignore_include x p)"
    and "\<And>x p. I p \<Longrightarrow> I (npmignore_exclude x p)"
  shows "I (node (snd (ctor_jest env options t)))"
proof (cases "nullish (o_jest options) True")
  case False
  then show ?thesis using assms(2) by (simp add: ctor_jest_def)
next
  case True
  define p1 where "p1 = snd (TypescriptConfig_new (jest_tsconfig_options t) (node t))"
  define p2 where "p2 = (if \<not> nullish (o_compileBeforeTest options) False
                      then addTestCommand [''rm -fr '' @ libdir t @ ''/''] p1 else p1)"
  define jo where "jo = spread_JestOptions (fst (TypescriptConfig_new (jest_tsconfig_options t) (node t)))
                   (o_jestOptions options)"
  have 1: "I p1" unfolding p1_def using assms(2,3) by blast
  have 2: "I p2" unfolding p2_def using 1 assms(4) by auto
  have 3: "I (Jest_new env jo p2)" using 2 assms(1) by (simp add: preserves_def)
  have "node (snd (ctor_jest env options t)) =
          npmignore_exclude (''/'' @ testdir t) (gitignore_include (''/'' @ testdir t) (Jest_new env jo p2))"
    using True by (simp add: ctor_jest_def Let_def split_beta p1_def p2_def jo_def)
  then show ?thesis using 3 assms(5,6) by simp
qed

lemma ctor_eslint_inv:
  assumes "preserves env I" and "I (node t)"
  shows "I (node (ctor_eslint env options e t))"
  using assms by (simp add: ctor_eslint_def Let_def preserves_def)

lemma ctor_rest_inv:
  assumes "preserves env I" and "I (node t)"
    and "\<And>d p. I p \<Longrightarrow> I (addDevDependencies d p)"
    and "\<And>c p. I p \<Longrightarrow> I (p\<lparr>components := components p @ [c]\<rparr>)"
  shows "I (node (ctor_rest env options t))"
proof -
  define t1 where "t1 = t\<lparr>node := addDevDependencies
                   [(''typescript'', nullish (o_typescriptVersion options) (Semver_caret ''3.9.5'')),
                    (''@types/node'', Semver_caret (nullish (minNodeVersion (node t)) ''10.17.0''))]
                   (node t)\<rparr>"
  define t2 where "t2 = (if nullish (o_sampleCode options) True then SampleCode_new t1 else t1)"
  have 1: "I (node t1)" unfolding t1_def using assms(2,3) by simp
  have 2: "I (node t2)" unfolding t2_def SampleCode_new_def using 1 assms(4) by simp
  have 3: "ctor_rest env options t = (if truthy_bool (docgen t2) then t2\<lparr>node := TypedocDocgen_new env t2\<rparr> else t2)"
    by (simp add: ctor_rest_def Let_def t1_def t2_def)
  show ?thesis unfolding 3 using 2 assms(1) by (simp add: preserves_def)
qed

lemma tail_inv:
  assumes "preserves env I" and "I (node (after_ignores env options))"
    and "\<And>p. I p \<Longrightarrow> I (snd (TypescriptConfig_new (jest_tsconfig_options (after_ignores env options)) p))"
    and "\<And>p. \<not> nullish (o_compileBeforeTest options) False \<Longrightarrow> I p \<Longrightarrow>
           I (addTestCommand [''rm -fr '' @ nullish (o_libdir options) ''lib'' @ ''/''] p)"
    and "\<And>x p. I p \<Longrightarrow> I (gitignore_include x p)"
    and "\<And>x p. I p \<Longrightarrow> I (npmignore_exclude x p)"
    and "\<And>d p. I p \<Longrightarrow> I (addDevDependencies d p)"
    and "\<And>c p. I p \<Longrightarrow> I (p\<lparr>components := components p @ [c]\<rparr>)"
  shows "I (node (TypeScriptProject_new env options))"
proof -
  let ?A = "after_ignores env options"
  have l: "libdir ?A = nullish (o_libdir options) ''lib''"
    by (simp add: after_ignores_def Let_def ctor_field_simps)
  have c: "\<And>p. \<not> nullish (o_compileBeforeTest options) False \<Longrightarrow> I p \<Longrightarrow>
           I (addTestCommand [''rm -fr '' @ libdir ?A @ ''/''] p)"
    unfolding l by (rule assms(4))
  have j: "I (node (snd (ctor_jest env options ?A)))"
    by (rule ctor_jest_inv[OF assms(1,2,3) c assms(5,6)])
  have e: "I (node (ctor_eslint env options (fst (ctor_jest env options ?A)) (snd (ctor_jest env options ?A))))"
    by (rule ctor_eslint_inv[OF assms(1) j])
  have "I (node (ctor_rest env options
          (ctor_eslint env options (fst (ctor_jest env options ?A)) (snd (ctor_jest env options ?A)))))"
    by (rule ctor_rest_inv[OF assms(1) e assms(7,8)])
  then show ?thesis
    by (simp only: TypeScriptProject_new_def after_ignores_def Let_def split_beta)
qed

lemmas registry_defs = addScriptCommand_def addScript_def addCompileCommand_def addTestCommand_def
  addBuildCommand_def addDevDependencies_def gitignore_exclude_def gitignore_include_def
  npmignore_exclude_def npmignore_include_def IgnoreFile_exclude_def IgnoreFile_include_def
  JsonFile_new_def script_commands_def

lemma snd_TypescriptConfig_new:
  "snd (TypescriptConfig_new options p) =
     npmignore_exclude (''/'' @ nullish (opt_fileName options) ''tsconfig.json'')
       (p\<lparr>files := files p @ [tc_file (fst (TypescriptConfig_new options p))]\<rparr>)"
  by (simp add: TypescriptConfig_new_def JsonFile_new_def Let_def)

lemma TypescriptConfig_new_frame:
  "scripts (snd (TypescriptConfig_new options p)) = scripts p"
  "gitignore (snd (TypescriptConfig_new options p)) = gitignore p"
  "manifest (snd (TypescriptConfig_new options p)) = manifest p"
  "entrypoint (snd (TypescriptConfig_new options p)) = entrypoint p"
  "runScriptCommand (snd (TypescriptConfig_new options p)) = runScriptCommand p"
  "files (snd (TypescriptConfig_new options p)) = files p @ [tc_file (fst (TypescriptConfig_new options p))]"
  by (simp_all add: snd_TypescriptConfig_new npmignore_exclude_def)



lemma ctor_ignores_frame:
  "scripts (ctor_ignores src lib p) = scripts p"
  "manifest (ctor_ignores src lib p) = manifest p"
  "files (ctor_ignores src lib p) = files p"
  by (simp_all add: ctor_ignores_def Let_def registry_defs)

lemma after_ignores_fields:
  "srcdir (after_ignores env options) = nullish (o_srcdir options) ''src''"
  "libdir (after_ignores env options) = nullish (o_libdir options) ''lib''"
  "testdir (after_ignores env options) = nullish (o_testdir options) ''test''"
  by (simp_all add: after_ignores_def Let_def ctor_field_simps)

lemma after_ignores_node:
  "node (after_ignores env options) =
     ctor_ignores (nullish (o_srcdir options) ''src'') (nullish (o_libdir options) ''lib'')
       (node (ctor_tsconfig options
          ((ctor_fields env options)\<lparr>node := ctor_types options (ctor_scripts options (NodeProject_new env options))\<rparr>)))"
  by (simp add: after_ignores_def Let_def ctor_field_simps)

lemma TypeScriptProject_new_tail:
  "TypeScriptProject_new env options =
     ctor_rest env options
       (ctor_eslint env options (fst (ctor_jest env options (after_ignores env options)))
          (snd (ctor_jest env options (after_ignores env options))))"
  by (simp only: TypeScriptProject_new_def after_ignores_def Let_def split_beta)

lemma after_jest_inv:
  assumes "preserves env I" and "I (node (snd (ctor_jest env options (after_ignores env options))))"
    and "\<And>d p. I p \<Longrightarrow> I (addDevDependencies d p)"
    and "\<And>c p. I p \<Longrightarrow> I (p\<lparr>components := components p @ [c]\<rparr>)"
  shows "I (node (TypeScriptProject_new env options))"
  unfolding TypeScriptProject_new_tail
  by (rule ctor_rest_inv[OF assms(1) ctor_eslint_inv[OF assms(1,2)] assms(3,4)])

lemma script_commands_cong: "scripts q = scripts p \<Longrightarrow> script_commands q n = script_commands p n"
  by (simp add: script_commands_def)

lemma script_commands_simps:
  "script_commands (addScriptCommand n cs p) m =
     (if m = n then script_commands p n @ cs else script_commands p m)"
  "script_commands (addTestCommand cs p) m =
     (if m = ''test'' then script_commands p ''test'' @ cs else script_commands p m)"
  "script_commands (gitignore_include x p) m = script_commands p m"
  "script_commands (gitignore_exclude x p) m = script_commands p m"
  "script_commands (npmignore_include x p) m = script_commands p m"
  "script_commands (npmignore_exclude x p) m = script_commands p m"
  "script_commands (addDevDependencies d p) m = script_commands p m"
  "script_commands (p\<lparr>components := c\<rparr>) m = script_commands p m"
  "script_commands (p\<lparr>files := f\<rparr>) m = script_commands p m"
  "script_commands (snd (JsonFile_new fileName obj p)) m = script_commands p m"
  "script_commands (snd (TypescriptConfig_new opts p)) m = script_commands p m"
  by (simp_all add: registry_defs snd_TypescriptConfig_new Let_def)

lemma ctor_scripts_build:
  "script_commands (ctor_scripts options p) ''build'' =
     script_commands p ''build''
       @ (if nullish (o_compileBeforeTest options) False
          then [runScriptCommand p @ '' compile'', runScriptCommand p @ '' test'']
          else [runScriptCommand p @ '' test'', runScriptCommand p @ '' compile''])
       @ (if nullish (o_package options) True then [runScriptCommand p @ '' package''] else [])"
  by (simp add: ctor_scripts_def Let_def registry_defs)

lemma ctor_scripts_test:
  "script_commands (ctor_scripts options p) ''test'' = script_commands p ''test''"
  by (simp add: ctor_scripts_def Let_def registry_defs)

lemma ctor_scripts_frame:
  "manifest (ctor_scripts options p) = manifest p"
  "entrypoint (ctor_scripts options p) = entrypoint p"
  "files (ctor_scripts options p) = files p"
  by (simp_all add: ctor_scripts_def Let_def registry_defs)

lemma ctor_types_frame:
  "scripts (ctor_types options p) = scripts p"
  "files (ctor_types options p) = files p"
  by (simp_all add: ctor_types_def)

lemma ctor_tsconfig_node:
  "node (ctor_tsconfig options t) =
     (if \<not> truthy_bool (o_disableTsconfig options)
      then snd (TypescriptConfig_new (main_tsconfig_options options t) (node t))
      else node t)"
  by (simp add: ctor_tsconfig_def Let_def split_beta)

lemma after_ignores_scripts:
  "script_commands (node (after_ignores env options)) ''build'' =
     script_commands (ctor_scripts options (NodeProject_new env options)) ''build''"
  "script_commands (node (after_ignores env options)) ''test'' =
     script_commands (NodeProject_new env options) ''test''"
  by (simp_all add: after_ignores_node ctor_tsconfig_node ctor_ignores_frame TypescriptConfig_new_frame
      ctor_types_frame ctor_scripts_test cong: script_commands_cong)


lemma update_fresh: "k \<notin> fst ` set al \<Longrightarrow> AList.update k v al = al @ [(k, v)]"
  by (induction al) auto

lemma spread_append_distinct:
  "distinct (map fst (base @ ext)) \<Longrightarrow> spread base ext = base @ ext"
proof (induction ext arbitrary: base)
  case Nil
  then show ?case by (simp add: spread_def)
next
  case (Cons x ext)
  obtain k v where x: "x = (k, v)" by (cases x)
  from Cons.prems have fresh: "k \<notin> fst ` set base" by (auto simp: x)
  from Cons.prems have "distinct (map fst ((base @ [(k, v)]) @ ext))" by (auto simp: x)
  then have "spread (base @ [(k, v)]) ext = (base @ [(k, v)]) @ ext" by (rule Cons.IH)
  then show ?case by (simp add: spread_def x update_fresh[OF fresh])
qed

lemma spread_Nil_distinct: "distinct (map fst ext) \<Longrightarrow> spread [] ext = ext"
  using spread_append_distinct[of "[]" ext] by simp

lemma map_of_spread_rev: "map_of (spread base ext) = map_of base ++ map_of (rev ext)"
proof (induction ext arbitrary: base)
  case Nil
  then show ?case by (simp add: spread_def)
next
  case (Cons x ext)
  obtain k v where x: "x = (k, v)" by (cases x)
  have "map_of (spread (AList.update k v base) ext) = map_of (AList.update k v base) ++ map_of (rev ext)"
    by (rule Cons.IH)
  then have "map_of (spread base (x # ext)) = (map_of base)(k \<mapsto> v) ++ map_of (rev ext)"
    by (simp add: spread_def x update_conv')
  also have "\<dots> = map_of base ++ map_of (rev (x # ext))"
    by (simp add: x fun_eq_iff map_add_def split: option.splits)
  finally show ?case .
qed

lemma map_of_rev_distinct: "distinct (map fst xs) \<Longrightarrow> map_of (rev xs) = map_of xs"
proof (induction xs)
  case Nil
  then show ?case by simp
next
  case (Cons x xs)
  then have "fst x \<notin> dom (map_of xs)" by (simp add: dom_map_of_conv_image_fst)
  then have "map_of xs (fst x) = None" by blast
  with Cons show ?case
    by (auto simp add: fun_eq_iff map_add_def split: option.splits)
qed

lemma map_of_spread:
  "distinct (map fst ext) \<Longrightarrow> map_of (spread base ext) = map_of base ++ map_of ext"
  by (simp add: map_of_spread_rev map_of_rev_distinct)

lemma spread_key_None: "spread_key Absent x = x"
  by (cases x) (simp_all add: spread_key_def)

lemma manifest_frame:
  "manifest (addScriptCommand n cs p) = manifest p"
  "manifest (addTestCommand cs p) = manifest p"
  "manifest (gitignore_include x p) = manifest p"
  "manifest (gitignore_exclude x p) = manifest p"
  "manifest (npmignore_include x p) = manifest p"
  "manifest (npmignore_exclude x p) = manifest p"
  "manifest (addDevDependencies d p) = manifest p"
  by (simp_all add: registry_defs)

lemma files_frame:
  "files (addScriptCommand n cs p) = files p"
  "files (addTestCommand cs p) = files p"
  "files (gitignore_include x p) = files p"
  "files (gitignore_exclude x p) = files p"
  "files (npmignore_include x p) = files p"
  "files (npmignore_exclude x p) = files p"
  "files (addDevDependencies d p) = files p"
  by (simp_all add: registry_defs)

lemma after_ignores_manifest:
  "manifest (node (after_ignores env options)) =
     manifest (ctor_types options (ctor_scripts options (NodeProject_new env options)))"
  by (simp add: after_ignores_node ctor_tsconfig_node ctor_ignores_frame TypescriptConfig_new_frame)

lemma after_ignores_files:
  "files (node (after_ignores env options)) =
     files (NodeProject_new env options)
       @ (if \<not> truthy_bool (o_disableTsconfig options)
          then [tc_file (fst (TypescriptConfig_new (main_tsconfig_options options (ctor_fields env options))
                                (NodeProject_new env options)))]
          else [])"
  by (simp add: after_ignores_node ctor_tsconfig_node ctor_ignores_frame TypescriptConfig_new_frame
      ctor_types_frame ctor_scripts_frame fst_TypescriptConfig_new main_tsconfig_options_def
      ctor_fields_def)

lemma jest_tsconfig_options_after_ignores:
  "jest_tsconfig_options (after_ignores env options) = jest_tsconfig_options (ctor_fields env options)"
  by (simp add: jest_tsconfig_options_def after_ignores_fields ctor_fields_def)

lemma ctor_jest_registers_file:
  assumes "nullish (o_jest options) True"
    and "\<forall>f. preserves env (\<lambda>p. f \<in> set (files p))"
  shows "tc_file (fst (TypescriptConfig_new (jest_tsconfig_options t) (node t)))
           \<in> set (files (node (snd (ctor_jest env options t))))"
proof -
  let ?f = "tc_file (fst (TypescriptConfig_new (jest_tsconfig_options t) (node t)))"
  let ?I = "\<lambda>p. ?f \<in> set (files p)"
  define p1 where "p1 = snd (TypescriptConfig_new (jest_tsconfig_options t) (node t))"
  define p2 where "p2 = (if \<not> nullish (o_compileBeforeTest options) False
                      then addTestCommand [''rm -fr '' @ libdir t @ ''/''] p1 else p1)"
  define jo where "jo = spread_JestOptions (fst (TypescriptConfig_new (jest_tsconfig_options t) (node t)))
                   (o_jestOptions options)"
  have n: "node (snd (ctor_jest env options t)) =
      npmignore_exclude (''/'' @ testdir t) (gitignore_include (''/'' @ testdir t) (Jest_new env jo p2))"
    using assms(1) by (simp add: ctor_jest_def Let_def split_beta p1_def p2_def jo_def)
  have "?I p1" by (simp add: p1_def TypescriptConfig_new_frame)
  then have "?I p2" by (simp add: p2_def files_frame)
  then have "?I (Jest_new env jo p2)"
    using assms(2) unfolding preserves_def by blast
  then show ?thesis unfolding n by (simp add: files_frame)
qed

lemma writeFile_lookup:
  "writeFile fs p d = Inr fs' \<Longrightarrow> fs_lookup fs' p = Some (File d)"
  "writeFile_entries es s ss d = Inr es' \<Longrightarrow> fs_lookup_entries es' s ss = Some (File d)"
  by (induction fs p d and es s ss d arbitrary: fs' and es' rule: writeFile_writeFile_entries.induct)
     (auto split: sum.splits if_splits)

lemma has_ts_guard_directory:
  "fs_lookup fs (path_segments d) = Some (Dir es) \<Longrightarrow> has_ts_guard d fs = Inr True"
  by (simp add: has_ts_guard_def pathExistsSync_def readdirSync_def truthy_array_def)

lemma has_ts_guard_file:
  "fs_lookup fs (path_segments d) = Some (File x) \<Longrightarrow> has_ts_guard d fs = Inl ENOTDIR"
  by (simp add: has_ts_guard_def pathExistsSync_def readdirSync_def)

lemma has_ts_guard_missing:
  "\<not> pathExistsSync d fs \<Longrightarrow> has_ts_guard d fs = Inr False"
  by (simp add: has_ts_guard_def)

lemma split_slash_no_slash: "CHR ''/'' \<notin> set s \<Longrightarrow> split_slash s = [s]"
  by (induction s) (auto simp: is_slash_def)

lemma split_slash_append: "CHR ''/'' \<notin> set a \<Longrightarrow> split_slash (a @ CHR ''/'' # b) = a # split_slash b"
  by (induction a) (auto simp: is_slash_def)

lemma dropWhile_no_slash:
  "CHR ''/'' \<notin> set s \<Longrightarrow> dropWhile (\<lambda>c. \<not> is_slash c) (s @ t) = dropWhile (\<lambda>c. \<not> is_slash c) t"
  by (induction s) (auto simp: is_slash_def)

lemma takeWhile_no_slash:
  "CHR ''/'' \<notin> set s \<Longrightarrow> takeWhile (\<lambda>c. \<not> is_slash c) (s @ CHR ''/'' # t) = s"
  by (induction s) (auto simp: is_slash_def)

lemma takeWhile_no_slash_all:
  "CHR ''/'' \<notin> set s \<Longrightarrow> takeWhile (\<lambda>c. \<not> is_slash c) s = s"
  by (induction s) (auto simp: is_slash_def)

lemma path_dirname_simple:
  assumes "simple_name d" "CHR ''/'' \<notin> set f" "f \<noteq> []"
  shows "path_dirname (d @ ''/'' @ f) = d"
proof -
  obtain c cs where d: "d = c # cs" using assms(1) by (cases d) (auto simp: simple_name_def)
  have c: "\<not> is_slash c" and cs: "CHR ''/'' \<notin> set cs"
    using assms(1) by (auto simp: simple_name_def d is_slash_def)
  obtain x xs where f: "rev f = x # xs" using assms(3) by (cases "rev f") auto
  have x: "\<not> is_slash x" and xs: "CHR ''/'' \<notin> set xs"
    using assms(2) f by (metis is_slash_def list.set_intros(1) set_rev, metis list.set_intros(2) set_rev f)
  have nx: "CHR ''/'' \<notin> set (x # xs)" using x xs by (simp add: is_slash_def)
  have "dropWhile (\<lambda>c. \<not> is_slash c) (dropWhile is_slash (rev (tl (d @ ''/'' @ f))))
          = dropWhile (\<lambda>c. \<not> is_slash c) ((x # xs) @ CHR ''/'' # rev cs)"
    using x by (simp add: d f)
  also have "\<dots> = CHR ''/'' # rev cs"
    unfolding dropWhile_no_slash[OF nx] by (simp add: is_slash_def)
  finally have "dropWhile (\<lambda>c. \<not> is_slash c) (dropWhile is_slash (rev (tl (d @ ''/'' @ f))))
          = CHR ''/'' # rev cs" .
  then show ?thesis
    using c by (simp add: path_dirname_def d Let_def)
qed

lemma path_basename_js:
  assumes "CHR ''/'' \<notin> set b" "b \<noteq> []"
  shows "path_basename (pre @ ''/'' @ b @ ''.js'') ''.js'' = b"
    and "path_basename (b @ ''.js'') ''.js'' = b"
proof -
  have r: "rev (b @ ''.js'') = CHR ''s'' # CHR ''j'' # CHR ''.'' # rev b" by simp
  have ns: "CHR ''/'' \<notin> set (CHR ''s'' # CHR ''j'' # CHR ''.'' # rev b)" using assms(1) by simp
  have t1: "takeWhile (\<lambda>c. \<not> is_slash c) (dropWhile is_slash (rev (pre @ ''/'' @ b @ ''.js'')))
          = rev (b @ ''.js'')"
    using takeWhile_no_slash[OF ns, of "rev pre"] by (simp add: is_slash_def)
  have t2: "takeWhile (\<lambda>c. \<not> is_slash c) (dropWhile is_slash (rev (b @ ''.js''))) = rev (b @ ''.js'')"
    using takeWhile_no_slash_all[OF ns] by (simp add: is_slash_def)
  have ne: "b @ ''.js'' \<noteq> ''.js''" using assms(2) by simp
  show "path_basename (pre @ ''/'' @ b @ ''.js'') ''.js'' = b"
    unfolding path_basename_def Let_def t1 using assms(2) by (simp add: is_slash_def)
  show "path_basename (b @ ''.js'') ''.js'' = b"
    unfolding path_basename_def Let_def t2 using assms(2) ne by (simp add: is_slash_def)
qed

lemma path_join_simple:
  assumes "simple_name d" "simple_name b"
  shows "path_join d b = d @ ''/'' @ b"
proof -
  have s: "split_slash (d @ CHR ''/'' # b) = [d, b]"
    using assms by (simp add: simple_name_def split_slash_append split_slash_no_slash)
  have hd: "\<not> is_slash (hd (d @ ''/'' @ b))"
    using assms(1) by (cases d) (auto simp: simple_name_def is_slash_def)
  have last: "\<not> is_slash (last (d @ ''/'' @ b))"
    using assms(2) by (cases b rule: rev_cases) (auto simp: simple_name_def is_slash_def)
  have n: "normalizeSegments True [] [d, b] = [d, b]"
    using assms by (simp add: simple_name_def)
  show ?thesis
    using assms hd last
    by (simp add: path_join_def path_normalize_def Let_def s n simple_name_def del: normalizeSegments.simps)
qed

lemma replace_backslashes_id: "CHR 0x5C \<notin> set s \<Longrightarrow> replace_backslashes s = s"
  by (induction s) (auto simp: replace_backslashes_def)

lemma entrypoint_types_simple:
  assumes "simple_name d" "simple_name b"
  shows "entrypoint_types (d @ ''/'' @ b @ ''.js'') = d @ ''/'' @ b @ ''.d.ts''"
proof -
  have b: "CHR ''/'' \<notin> set b" "b \<noteq> []" using assms(2) by (auto simp: simple_name_def)
  have "path_dirname (d @ ''/'' @ (b @ ''.js'')) = d"
    by (rule path_dirname_simple[OF assms(1)]) (use b in auto)
  moreover have "path_basename (d @ ''/'' @ b @ ''.js'') ''.js'' = b"
    by (rule path_basename_js(1)[OF b])
  moreover have "replace_backslashes (d @ ''/'' @ b) = d @ ''/'' @ b"
    using assms by (intro replace_backslashes_id) (auto simp: simple_name_def)
  ultimately show ?thesis
    by (simp add: entrypoint_types_def path_join_simple[OF assms])
qed

lemma path_dirname_no_slash:
  assumes "CHR ''/'' \<notin> set f" "f \<noteq> []"
  shows "path_dirname f = ''.''"
proof -
  obtain c cs where f: "f = c # cs" using assms(2) by (cases f) auto
  have c: "\<not> is_slash c" and cs: "CHR ''/'' \<notin> set (rev cs)"
    using assms(1) by (auto simp: f is_slash_def)
  have "dropWhile is_slash (rev cs) = rev cs \<or> dropWhile is_slash (rev cs) = []"
    using cs by (cases "rev cs") (auto simp: is_slash_def)
  moreover have "dropWhile (\<lambda>c. \<not> is_slash c) (rev cs) = []"
    using dropWhile_no_slash[OF cs, of "[]"] by simp
  ultimately have "dropWhile (\<lambda>c. \<not> is_slash c) (dropWhile is_slash (rev (tl f))) = []"
    by (auto simp: f)
  then show ?thesis using c by (simp add: path_dirname_def f Let_def)
qed

lemma path_join_dot:
  assumes "simple_name b"
  shows "path_join ''.'' b = b"
proof -
  have s: "split_slash (CHR ''.'' # CHR ''/'' # b) = [''.'', b]"
    using assms split_slash_append[of "''.''" b] by (simp add: simple_name_def split_slash_no_slash)
  have last: "\<not> is_slash (last b)"
    using assms by (cases b rule: rev_cases) (auto simp: simple_name_def is_slash_def)
  have n: "normalizeSegments True [] [''.'', b] = [b]"
    using assms by (simp add: simple_name_def)
  have h: "\<not> is_slash CHR ''.''" by (simp add: is_slash_def)
  show ?thesis
    using assms last h
    by (simp add: path_join_def path_normalize_def Let_def s n simple_name_def
        del: normalizeSegments.simps split_slash.simps)
qed

lemma entrypoint_types_simple_file:
  assumes "simple_name b"
  shows "entrypoint_types (b @ ''.js'') = b @ ''.d.ts''"
proof -
  have b: "CHR ''/'' \<notin> set b" "b \<noteq> []" using assms by (auto simp: simple_name_def)
  have "path_dirname (b @ ''.js'') = ''.''"
    by (rule path_dirname_no_slash) (use b in auto)
  moreover have "path_basename (b @ ''.js'') ''.js'' = b"
    by (rule path_basename_js(2)[OF b])
  moreover have "replace_backslashes b = b"
    using assms by (intro replace_backslashes_id) (auto simp: simple_name_def)
  ultimately show ?thesis
    by (simp add: entrypoint_types_def path_join_dot[OF assms])
qed

section \<open>Claims\<close>

text \<open>
  C10. Every construction of a \<^verbatim>\<open>TypescriptConfig\<close>, for any file name, appends
  \<^verbatim>\<open>/\<close> followed by the file name as an exclude entry to the project's
  package-ignore list when the project has one, and leaves a missing list missing. The
  file name is the one the emitter writes to, \<^verbatim>\<open>tsconfig.json\<close> by default and
  \<^verbatim>\<open>tsconfig.jest.json\<close> for the test-scoped variant.
\<close>

theorem TypescriptConfig_excluded_from_package:
  "npmignore (snd (TypescriptConfig_new options project)) =
     (case npmignore project of
        None \<Rightarrow> None
      | Some l \<Rightarrow> Some (l @ [Exclude (''/'' @ tc_fileName (fst (TypescriptConfig_new options project)))]))
   \<and> tc_fileName (fst (TypescriptConfig_new options project)) = nullish (opt_fileName options) ''tsconfig.json''
   \<and> jf_path (tc_file (fst (TypescriptConfig_new options project))) =
       tc_fileName (fst (TypescriptConfig_new options project))
   \<and> tc_fileName (fst (TypescriptConfig_new (jest_tsconfig_options t) project)) = ''tsconfig.jest.json''"
  by (cases "npmignore project")
     (simp_all add: fst_TypescriptConfig_new snd_TypescriptConfig_new npmignore_exclude_def
        IgnoreFile_exclude_def jest_tsconfig_options_def nullish_def)

theorem TypescriptConfig_excluded_from_package_witness:
  "npmignore (snd (TypescriptConfig_new (jest_tsconfig_options (ctor_fields stub_collaborators no_options))
      (stub_NodeProject no_options))) = Some [Exclude ''/tsconfig.jest.json'']
   \<and> npmignore (snd (TypescriptConfig_new (jest_tsconfig_options (ctor_fields stub_collaborators no_options))
      ((stub_NodeProject no_options)\<lparr>npmignore := None\<rparr>))) = None"
  using TypescriptConfig_excluded_from_package
          [of "jest_tsconfig_options (ctor_fields stub_collaborators no_options)" "stub_NodeProject no_options"]
        TypescriptConfig_excluded_from_package
          [of "jest_tsconfig_options (ctor_fields stub_collaborators no_options)"
              "(stub_NodeProject no_options)\<lparr>npmignore := None\<rparr>"]
  by (simp add: stub_NodeProject_def jest_tsconfig_options_def nullish_def)




text \<open>
  C2, as amended. The constructor appends to the build script, in this order, the test
  and the compile command (compile first, then test, when \<^verbatim>\<open>compileBeforeTest\<close> is
  true) and after them the package command unless packaging is switched off. With the
  test tooling enabled and \<^verbatim>\<open>compileBeforeTest\<close> false or absent, the command
  that removes the compiled-output directory is registered on the test script before the
  test runner is constructed: it follows what the super constructor left on the test
  script and precedes every command that the later constructors append. With
  \<^verbatim>\<open>compileBeforeTest\<close> true no cleanup command is registered. Assumed of the
  constructors of the other files: they leave the build script alone, they only append
  to the test script, and they do not add the cleanup command themselves; nor does the
  super constructor.
\<close>

theorem build_order_and_pretest_cleanup:
  assumes "nullish (o_jest options) True"
    and "\<forall>cs. preserves env (\<lambda>p. script_commands p ''build'' = cs)"
    and "\<forall>cs. preserves env (\<lambda>p. prefix cs (script_commands p ''test''))"
    and "preserves env (\<lambda>p. (''rm -fr '' @ nullish (o_libdir options) ''lib'' @ ''/'') \<notin> set (script_commands p ''test''))"
    and "(''rm -fr '' @ nullish (o_libdir options) ''lib'' @ ''/'') \<notin> set (script_commands (NodeProject_new env options) ''test'')"
  shows "script_commands (node (TypeScriptProject_new env options)) ''build'' =
           script_commands (NodeProject_new env options) ''build''
             @ (if nullish (o_compileBeforeTest options) False
                then [runScriptCommand (NodeProject_new env options) @ '' compile'',
                      runScriptCommand (NodeProject_new env options) @ '' test'']
                else [runScriptCommand (NodeProject_new env options) @ '' test'',
                      runScriptCommand (NodeProject_new env options) @ '' compile''])
             @ (if nullish (o_package options) True
                then [runScriptCommand (NodeProject_new env options) @ '' package''] else [])
       \<and> (\<not> nullish (o_compileBeforeTest options) False \<longrightarrow>
            prefix (script_commands (NodeProject_new env options) ''test''
                      @ [''rm -fr '' @ libdir (TypeScriptProject_new env options) @ ''/''])
                   (script_commands (node (TypeScriptProject_new env options)) ''test''))
       \<and> (nullish (o_compileBeforeTest options) False \<longrightarrow>
            (''rm -fr '' @ libdir (TypeScriptProject_new env options) @ ''/'')
              \<notin> set (script_commands (node (TypeScriptProject_new env options)) ''test''))
       \<and> ((''rm -fr '' @ libdir (TypeScriptProject_new env options) @ ''/'')
             \<in> set (script_commands (node (TypeScriptProject_new env options)) ''test'')
           \<longleftrightarrow> \<not> nullish (o_compileBeforeTest options) False)"
proof -
  let ?R = "TypeScriptProject_new env options"
  let ?A = "after_ignores env options"
  let ?c = "''rm -fr '' @ nullish (o_libdir options) ''lib'' @ ''/''"
  let ?base = "script_commands (NodeProject_new env options) ''test''"
  have lib: "libdir ?R = nullish (o_libdir options) ''lib''"
    by (simp add: TypeScriptProject_new_def Let_def split_beta ctor_field_simps)
  have build: "script_commands (node ?R) ''build'' = script_commands (node ?A) ''build''"
    by (rule tail_inv[where I = "\<lambda>p. script_commands p ''build'' = script_commands (node ?A) ''build''",
          OF assms(2)[rule_format]])
       (simp_all add: script_commands_simps)
  have absent: "?c \<notin> set (script_commands (node ?R) ''test'')"
    if cbt: "nullish (o_compileBeforeTest options) False"
    by (rule tail_inv[where I = "\<lambda>p. ?c \<notin> set (script_commands p ''test'')", OF assms(4)])
       (use assms(5) in \<open>simp_all add: cbt after_ignores_scripts script_commands_simps\<close>)
  have first: "prefix (?base @ [?c]) (script_commands (node ?R) ''test'')"
    if ncbt: "\<not> nullish (o_compileBeforeTest options) False"
  proof -
    let ?I = "\<lambda>p. prefix (?base @ [?c]) (script_commands p ''test'')"
    define p1 where "p1 = snd (TypescriptConfig_new (jest_tsconfig_options ?A) (node ?A))"
    define jo where "jo = spread_JestOptions (fst (TypescriptConfig_new (jest_tsconfig_options ?A) (node ?A)))
                   (o_jestOptions options)"
    have n: "node (snd (ctor_jest env options ?A)) =
        npmignore_exclude (''/'' @ testdir ?A) (gitignore_include (''/'' @ testdir ?A)
          (Jest_new env jo (addTestCommand [?c] p1)))"
      using assms(1) ncbt
      by (simp add: ctor_jest_def Let_def split_beta p1_def jo_def after_ignores_fields)
    have "script_commands (addTestCommand [?c] p1) ''test'' = ?base @ [?c]"
      by (simp add: script_commands_simps p1_def after_ignores_scripts)
    then have "?I (addTestCommand [?c] p1)" by simp
    then have "?I (Jest_new env jo (addTestCommand [?c] p1))"
      using assms(3) unfolding preserves_def by blast
    then have "?I (node (snd (ctor_jest env options ?A)))"
      unfolding n by (simp add: script_commands_simps)
    then show ?thesis
      by (rule after_jest_inv[where I = ?I, OF assms(3)[rule_format]])
         (simp_all add: script_commands_simps)
  qed
  have member: "?c \<in> set (script_commands (node ?R) ''test'')"
    if ncbt: "\<not> nullish (o_compileBeforeTest options) False"
    using set_mono_prefix[OF first[OF ncbt]] by auto
  show ?thesis
    unfolding lib using build first absent member
    by (auto simp add: after_ignores_scripts ctor_scripts_build)
qed

theorem build_order_and_pretest_cleanup_witness:
  "(\<forall>cs. preserves stub_collaborators (\<lambda>p. script_commands p ''build'' = cs))
   \<and> (\<forall>cs. preserves stub_collaborators (\<lambda>p. prefix cs (script_commands p ''test'')))
   \<and> preserves stub_collaborators (\<lambda>p. ''rm -fr lib/'' \<notin> set (script_commands p ''test''))
   \<and> script_commands (node (TypeScriptProject_new stub_collaborators (no_options\<lparr>o_package := Given False\<rparr>))) ''build''
       = [''yarn run test'', ''yarn run compile'']
   \<and> prefix [''rm -fr lib/''] (script_commands
         (node (TypeScriptProject_new stub_collaborators (no_options\<lparr>o_package := Given False\<rparr>))) ''test'')
   \<and> script_commands
         (node (TypeScriptProject_new stub_collaborators (no_options\<lparr>o_package := Given False\<rparr>))) ''test''
       = [''rm -fr lib/'', ''jest'', ''eslint'']
   \<and> script_commands (node (TypeScriptProject_new stub_collaborators (no_options\<lparr>o_compileBeforeTest := Given True\<rparr>))) ''build''
       = [''yarn run compile'', ''yarn run test'', ''yarn run package'']
   \<and> ''rm -fr lib/'' \<notin> set (script_commands
         (node (TypeScriptProject_new stub_collaborators (no_options\<lparr>o_compileBeforeTest := Given True\<rparr>))) ''test'')"
proof -
  let ?o1 = "no_options\<lparr>o_package := Given False\<rparr>"
  let ?o2 = "no_options\<lparr>o_compileBeforeTest := Given True\<rparr>"
  have a: "\<forall>cs. preserves stub_collaborators (\<lambda>p. script_commands p ''build'' = cs)"
    by (simp add: preserves_def stub_collaborators_def script_commands_simps addScript_def)
  have b: "\<forall>cs. preserves stub_collaborators (\<lambda>p. prefix cs (script_commands p ''test''))"
    by (simp add: preserves_def stub_collaborators_def script_commands_simps addScript_def)
  have c: "preserves stub_collaborators (\<lambda>p. ''rm -fr lib/'' \<notin> set (script_commands p ''test''))"
    by (simp add: preserves_def stub_collaborators_def script_commands_simps addScript_def)
  have d: "''rm -fr lib/'' \<notin> set (script_commands (NodeProject_new stub_collaborators opts) ''test'')" for opts
    by (simp add: stub_collaborators_def stub_NodeProject_def script_commands_def)
  have j: "nullish (o_jest ?o1) True" "nullish (o_jest ?o2) True"
    by (simp_all add: no_options_simps nullish_simps)
  have 1: "''rm -fr '' @ nullish (o_libdir ?o1) ''lib'' @ ''/'' = ''rm -fr lib/''"
    and 2: "''rm -fr '' @ nullish (o_libdir ?o2) ''lib'' @ ''/'' = ''rm -fr lib/''"
    by (simp_all add: no_options_simps nullish_simps)
  have l: "libdir (TypeScriptProject_new stub_collaborators ?o1) = ''lib''"
          "libdir (TypeScriptProject_new stub_collaborators ?o2) = ''lib''"
    by (simp_all add: TypeScriptProject_new_def Let_def split_beta ctor_field_simps no_options_simps nullish_simps)
  have base: "script_commands (NodeProject_new stub_collaborators opts) ''build'' = []"
             "script_commands (NodeProject_new stub_collaborators opts) ''test'' = []"
             "runScriptCommand (NodeProject_new stub_collaborators opts) = ''yarn run''" for opts
    by (simp_all add: stub_collaborators_def stub_NodeProject_def script_commands_def)
  have e: "script_commands (node (TypeScriptProject_new stub_collaborators ?o1)) ''test''
       = [''rm -fr lib/'', ''jest'', ''eslint'']"
    by code_simp
  have t1: "script_commands (node (TypeScriptProject_new stub_collaborators ?o1)) ''build''
              = [''yarn run test'', ''yarn run compile'']
            \<and> prefix [''rm -fr lib/''] (script_commands (node (TypeScriptProject_new stub_collaborators ?o1)) ''test'')"
    using build_order_and_pretest_cleanup [of ?o1 stub_collaborators, OF j(1) a b c[folded 1] d[of ?o1, folded 1]]
    by (simp add: base l nullish_simps no_options_simps)
  have t2: "script_commands (node (TypeScriptProject_new stub_collaborators ?o2)) ''build''
              = [''yarn run compile'', ''yarn run test'', ''yarn run package'']
            \<and> ''rm -fr lib/'' \<notin> set (script_commands (node (TypeScriptProject_new stub_collaborators ?o2)) ''test'')"
    using build_order_and_pretest_cleanup [of ?o2 stub_collaborators, OF j(2) a b c[folded 2] d[of ?o2, folded 2]]
    by (simp add: base l nullish_simps no_options_simps)
  show ?thesis using a b c e t1 t2 by simp
qed

theorem build_script_counterexample:
  "nullish (o_jest no_options) True \<and> \<not> nullish (o_compileBeforeTest no_options) False
   \<and> script_commands (node (TypeScriptProject_new stub_collaborators no_options)) ''build''
       = [''yarn run test'', ''yarn run compile'', ''yarn run package'']"
  by code_simp

text \<open>
  C6. With the lint tooling enabled, the constructor of \<^verbatim>\<open>Eslint\<close> is called, after
  the test-tooling block, on the project as that block left it, with the configuration
  file chosen there: its \<^verbatim>\<open>tsconfigPath\<close> is \<^verbatim>\<open>./tsconfig.jest.json\<close>, the
  file name of the test-scoped \<^verbatim>\<open>TypescriptConfig\<close>, when the test tooling is
  enabled, and \<^verbatim>\<open>./tsconfig.json\<close> otherwise. The project keeps the component
  constructed with these options.
\<close>

theorem eslint_references_chosen_tsconfig:
  assumes "nullish (o_eslint options) True"
  shows "TypeScriptProject_new env options =
           ctor_rest env options
             (ctor_eslint env options (fst (ctor_jest env options (after_ignores env options)))
                (snd (ctor_jest env options (after_ignores env options))))
       \<and> node (ctor_eslint env options (fst (ctor_jest env options (after_ignores env options)))
                (snd (ctor_jest env options (after_ignores env options))))
           = Eslint_new env
               \<lparr>tsconfigPath = (if nullish (o_jest options) True
                                then ''./tsconfig.jest.json'' else ''./tsconfig.json''),
                dirs = [srcdir (TypeScriptProject_new env options),
                        testdir (TypeScriptProject_new env options)]\<rparr>
               (node (snd (ctor_jest env options (after_ignores env options))))
       \<and> eslint (TypeScriptProject_new env options) =
           Some \<lparr>tsconfigPath = (if nullish (o_jest options) True
                                  then ''./tsconfig.jest.json'' else ''./tsconfig.json''),
                  dirs = [srcdir (TypeScriptProject_new env options),
                          testdir (TypeScriptProject_new env options)]\<rparr>
       \<and> map_option tsconfigPath (eslint (TypeScriptProject_new env options)) =
           Some (''./'' @ fst (ctor_jest env options (after_ignores env options)))
       \<and> fst (ctor_jest env options (after_ignores env options)) =
           (if nullish (o_jest options) True
            then tc_fileName (fst (TypescriptConfig_new (jest_tsconfig_options (after_ignores env options))
                                     (node (after_ignores env options))))
            else ''tsconfig.json'')"
proof -
  let ?J = "ctor_jest env options (after_ignores env options)"
  have d: "srcdir (TypeScriptProject_new env options) = srcdir (snd ?J)"
    "testdir (TypeScriptProject_new env options) = testdir (snd ?J)"
    by (simp_all add: TypeScriptProject_new_tail ctor_field_simps)
  have n: "node (ctor_eslint env options (fst ?J) (snd ?J))
      = Eslint_new env \<lparr>tsconfigPath = ''./'' @ fst ?J, dirs = [srcdir (snd ?J), testdir (snd ?J)]\<rparr>
          (node (snd ?J))"
    using assms by (simp add: ctor_eslint_def Let_def)
  show ?thesis
    using assms
    by (simp add: n d TypeScriptProject_new_tail[symmetric])
       (simp add: TypeScriptProject_new_tail ctor_field_simps fst_TypescriptConfig_new
          jest_tsconfig_options_def nullish_simps)
qed

theorem eslint_references_chosen_tsconfig_witness:
  "nullish (o_eslint no_options) True
   \<and> nullish (o_eslint (no_options\<lparr>o_jest := Given False\<rparr>)) True
   \<and> map_option tsconfigPath (eslint (TypeScriptProject_new stub_collaborators no_options))
       = Some ''./tsconfig.jest.json''
   \<and> map_option tsconfigPath (eslint (TypeScriptProject_new stub_collaborators (no_options\<lparr>o_jest := Given False\<rparr>)))
       = Some ''./tsconfig.json''
   \<and> \<lparr>jf_path = ''.eslintrc.json'', jf_obj = JObject [(''project'', JString ''./tsconfig.jest.json'')]\<rparr>
        \<in> set (files (node (TypeScriptProject_new stub_collaborators no_options)))
   \<and> \<lparr>jf_path = ''.eslintrc.json'', jf_obj = JObject [(''project'', JString ''./tsconfig.json'')]\<rparr>
        \<in> set (files (node (TypeScriptProject_new stub_collaborators (no_options\<lparr>o_jest := Given False\<rparr>))))"
proof -
  let ?o = "no_options\<lparr>o_jest := Given False\<rparr>"
  have a: "nullish (o_eslint no_options) True"
    and b: "nullish (o_eslint ?o) True"
    by (simp_all add: no_options_simps nullish_simps)
  have keep: "f \<in> set (files (node t)) \<Longrightarrow> f \<in> set (files (node (ctor_rest stub_collaborators opts t)))"
    for f t opts
    by (rule ctor_rest_inv[where I = "\<lambda>p. f \<in> set (files p)"])
       (simp_all add: preserves_def stub_collaborators_def registry_defs Let_def)
  have eslintrc: "\<lparr>jf_path = ''.eslintrc.json'',
               jf_obj = JObject [(''project'', JString (if nullish (o_jest opts) True
                                    then ''./tsconfig.jest.json'' else ''./tsconfig.json''))]\<rparr>
        \<in> set (files (node (TypeScriptProject_new stub_collaborators opts)))"
    if e: "nullish (o_eslint opts) True" for opts
  proof -
    note t = eslint_references_chosen_tsconfig [OF e, of stub_collaborators]
    show ?thesis
      apply (subst t[THEN conjunct1])
      apply (rule keep)
      apply (subst t[THEN conjunct2, THEN conjunct1])
      apply (simp add: stub_collaborators_def registry_defs Let_def)
      done
  qed
  have 1: "map_option tsconfigPath (eslint (TypeScriptProject_new stub_collaborators no_options))
             = Some ''./tsconfig.jest.json''"
    using eslint_references_chosen_tsconfig [OF a, of stub_collaborators,
        THEN conjunct2, THEN conjunct2, THEN conjunct1]
    by (simp add: no_options_simps nullish_simps)
  have 2: "map_option tsconfigPath (eslint (TypeScriptProject_new stub_collaborators ?o))
             = Some ''./tsconfig.json''"
    using eslint_references_chosen_tsconfig [OF b, of stub_collaborators,
        THEN conjunct2, THEN conjunct2, THEN conjunct1]
    by (simp add: no_options_simps nullish_simps)
  have 3: "\<lparr>jf_path = ''.eslintrc.json'', jf_obj = JObject [(''project'', JString ''./tsconfig.jest.json'')]\<rparr>
        \<in> set (files (node (TypeScriptProject_new stub_collaborators no_options)))"
    using eslintrc[OF a] by (simp add: no_options_simps nullish_simps)
  have 4: "\<lparr>jf_path = ''.eslintrc.json'', jf_obj = JObject [(''project'', JString ''./tsconfig.json'')]\<rparr>
        \<in> set (files (node (TypeScriptProject_new stub_collaborators ?o)))"
    using eslintrc[OF b] by (simp add: no_options_simps nullish_simps)
  show ?thesis
    by (intro conjI) (fact a b 1 2 3 4)+
qed

text \<open>
  C8. Constructing the app variant with options \<open>O\<close> is constructing the generic
  project with the preset defaults (entrypoint empty, package, allowLibraryDependencies
  and releaseWorkflow false) overridden key by key by \<open>O\<close>: every key that \<open>O\<close>
  has wins over the preset, also a key whose value is \<^verbatim>\<open>undefined\<close>. The keys of
  an options object are distinct.
\<close>

theorem app_preset_is_generic_with_defaults:
  assumes "distinct (map fst (o_other options))"
  shows "TypeScriptAppProject_new env options =
           TypeScriptProject_new env (override_options app_preset_defaults options)
       \<and> o_entrypoint (override_options app_preset_defaults options) =
           (case o_entrypoint options of Absent \<Rightarrow> Given [] | Undefined \<Rightarrow> Undefined | Given e \<Rightarrow> Given e)
       \<and> o_package (override_options app_preset_defaults options) =
           (case o_package options of Absent \<Rightarrow> Given False | Undefined \<Rightarrow> Undefined | Given b \<Rightarrow> Given b)
       \<and> o_allowLibraryDependencies (override_options app_preset_defaults options) =
           (case o_allowLibraryDependencies options of
              Absent \<Rightarrow> Given False | Undefined \<Rightarrow> Undefined | Given b \<Rightarrow> Given b)
       \<and> o_releaseWorkflow (override_options app_preset_defaults options) =
           (case o_releaseWorkflow options of
              Absent \<Rightarrow> Given False | Undefined \<Rightarrow> Undefined | Given b \<Rightarrow> Given b)"
proof -
  have "options\<lparr>o_allowLibraryDependencies := spread_key (Given False) (o_allowLibraryDependencies options),
                o_releaseWorkflow := spread_key (Given False) (o_releaseWorkflow options),
                o_entrypoint := spread_key (Given []) (o_entrypoint options),
                o_package := spread_key (Given False) (o_package options)\<rparr>
        = override_options app_preset_defaults options"
    using assms
    by (cases options)
       (simp add: override_options_def app_preset_defaults_def no_options_def spread_key_simps
          spread_key_None spread_Nil_distinct)
  then have 1: "TypeScriptAppProject_new env options =
           TypeScriptProject_new env (override_options app_preset_defaults options)"
    by (simp add: TypeScriptAppProject_new_def)
  have 2: "o_entrypoint (override_options app_preset_defaults options) =
           (case o_entrypoint options of Absent \<Rightarrow> Given [] | Undefined \<Rightarrow> Undefined | Given e \<Rightarrow> Given e)"
    by (simp add: override_options_def app_preset_defaults_def spread_key_def split: optional.splits)
  have 3: "o_package (override_options app_preset_defaults options) =
           (case o_package options of Absent \<Rightarrow> Given False | Undefined \<Rightarrow> Undefined | Given b \<Rightarrow> Given b)"
    by (simp add: override_options_def app_preset_defaults_def spread_key_def split: optional.splits)
  have 4: "o_allowLibraryDependencies (override_options app_preset_defaults options) =
           (case o_allowLibraryDependencies options of
              Absent \<Rightarrow> Given False | Undefined \<Rightarrow> Undefined | Given b \<Rightarrow> Given b)"
    by (simp add: override_options_def app_preset_defaults_def spread_key_def split: optional.splits)
  have 5: "o_releaseWorkflow (override_options app_preset_defaults options) =
           (case o_releaseWorkflow options of
              Absent \<Rightarrow> Given False | Undefined \<Rightarrow> Undefined | Given b \<Rightarrow> Given b)"
    by (simp add: override_options_def app_preset_defaults_def spread_key_def split: optional.splits)
  show ?thesis
    by (intro conjI) (fact 1 2 3 4 5)+
qed

theorem app_preset_is_generic_with_defaults_witness:
  "distinct (map fst (o_other (no_options\<lparr>o_package := Given True\<rparr>)))
   \<and> distinct (map fst (o_other (no_options\<lparr>o_package := Undefined, o_entrypoint := Undefined\<rparr>)))
   \<and> TypeScriptAppProject_new stub_collaborators (no_options\<lparr>o_package := Given True\<rparr>) =
       TypeScriptProject_new stub_collaborators
         (no_options\<lparr>o_entrypoint := Given [], o_package := Given True,
                     o_allowLibraryDependencies := Given False, o_releaseWorkflow := Given False\<rparr>)
   \<and> script_commands (node (TypeScriptAppProject_new stub_collaborators (no_options\<lparr>o_package := Given True\<rparr>)))
         ''build'' = [''yarn run test'', ''yarn run compile'', ''yarn run package'']
   \<and> manifest (node (TypeScriptAppProject_new stub_collaborators (no_options\<lparr>o_package := Given True\<rparr>)))
         ''types'' = None
   \<and> script_commands (node (TypeScriptAppProject_new stub_collaborators no_options))
         ''build'' = [''yarn run test'', ''yarn run compile'']
   \<and> script_commands (node (TypeScriptAppProject_new stub_collaborators
         (no_options\<lparr>o_package := Undefined, o_entrypoint := Undefined\<rparr>)))
         ''build'' = [''yarn run test'', ''yarn run compile'', ''yarn run package'']
   \<and> manifest (node (TypeScriptAppProject_new stub_collaborators
         (no_options\<lparr>o_package := Undefined, o_entrypoint := Undefined\<rparr>)))
         ''types'' = Some (JString ''lib/index.d.ts'')"
proof -
  let ?g = "no_options\<lparr>o_entrypoint := Given [], o_package := Given True,
                     o_allowLibraryDependencies := Given False, o_releaseWorkflow := Given False\<rparr>"
  let ?u = "no_options\<lparr>o_package := Undefined, o_entrypoint := Undefined\<rparr>"
  let ?gu = "no_options\<lparr>o_entrypoint := Undefined, o_package := Undefined,
                     o_allowLibraryDependencies := Given False, o_releaseWorkflow := Given False\<rparr>"
  have a: "distinct (map fst (o_other (no_options\<lparr>o_package := Given True\<rparr>)))"
    and a': "distinct (map fst (o_other ?u))" and a'': "distinct (map fst (o_other no_options))"
    by (simp_all add: no_options_simps)
  have b: "override_options app_preset_defaults (no_options\<lparr>o_package := Given True\<rparr>) = ?g"
    by (simp add: override_options_def app_preset_defaults_def no_options_def spread_key_simps
        spread_key_None spread_def)
  have b': "override_options app_preset_defaults ?u = ?gu"
    by (simp add: override_options_def app_preset_defaults_def no_options_def spread_key_simps
        spread_key_None spread_def)
  have b'': "override_options app_preset_defaults no_options = app_preset_defaults"
    by (simp add: override_options_def app_preset_defaults_def no_options_def spread_key_simps
        spread_key_None spread_def)
  have c: "script_commands (node (TypeScriptProject_new stub_collaborators ?g)) ''build''
             = [''yarn run test'', ''yarn run compile'', ''yarn run package'']"
    by code_simp
  have d: "manifest (node (TypeScriptProject_new stub_collaborators ?g)) ''types'' = None"
    by code_simp
  have c': "script_commands (node (TypeScriptProject_new stub_collaborators ?gu)) ''build''
             = [''yarn run test'', ''yarn run compile'', ''yarn run package'']"
    by code_simp
  have d': "manifest (node (TypeScriptProject_new stub_collaborators ?gu)) ''types''
             = Some (JString ''lib/index.d.ts'')"
    by code_simp
  have c'': "script_commands (node (TypeScriptProject_new stub_collaborators app_preset_defaults)) ''build''
             = [''yarn run test'', ''yarn run compile'']"
    by code_simp
  show ?thesis
    using a a' c d c' d' c''
      app_preset_is_generic_with_defaults [OF a, of stub_collaborators, THEN conjunct1]
      app_preset_is_generic_with_defaults [OF a', of stub_collaborators, THEN conjunct1]
      app_preset_is_generic_with_defaults [OF a'', of stub_collaborators, THEN conjunct1]
    by (simp add: b b' b'')
qed

text \<open>
  C7, as amended. The constructor sets the \<^verbatim>\<open>types\<close> field of the manifest if and
  only if the caller supplies a non-empty \<^verbatim>\<open>entrypointTypes\<close> or the entrypoint
  of the project is non-empty. The value is the supplied \<^verbatim>\<open>entrypointTypes\<close>
  when there is one; otherwise it is derived from the entrypoint: the directory of the
  entrypoint joined with its base name without the extension \<^verbatim>\<open>.js\<close>, backslashes
  turned into slashes, followed by \<^verbatim>\<open>.d.ts\<close>; for an entrypoint
  \<^verbatim>\<open>dir/name.js\<close> or \<^verbatim>\<open>name.js\<close> of plain segments this is
  \<^verbatim>\<open>dir/name.d.ts\<close> or \<^verbatim>\<open>name.d.ts\<close>. When the field is not set it is as
  the super constructor left it. Assumed of the constructors of the other files: they
  leave the \<^verbatim>\<open>types\<close> field alone.
\<close>

theorem manifest_types_field:
  assumes "\<forall>v. preserves env (\<lambda>p. manifest p ''types'' = v)"
  shows "manifest (node (TypeScriptProject_new env options)) ''types'' =
           (if truthy_string (o_entrypointTypes options) \<or> entrypoint (NodeProject_new env options) \<noteq> []
            then Some (JString (case defined (o_entrypointTypes options) of
                                  Some given \<Rightarrow> given
                                | None \<Rightarrow> replace_backslashes
                                            (path_join (path_dirname (entrypoint (NodeProject_new env options)))
                                               (path_basename (entrypoint (NodeProject_new env options)) ''.js''))
                                          @ ''.d.ts''))
            else manifest (NodeProject_new env options) ''types'')
       \<and> (truthy_string (o_entrypointTypes options) \<longleftrightarrow>
            (\<exists>given. o_entrypointTypes options = Given given \<and> given \<noteq> []))
       \<and> (defined (o_entrypointTypes options) = None \<and> simple_name d \<and> simple_name b
            \<and> entrypoint (NodeProject_new env options) = d @ ''/'' @ b @ ''.js''
          \<longrightarrow> manifest (node (TypeScriptProject_new env options)) ''types''
                = Some (JString (d @ ''/'' @ b @ ''.d.ts'')))
       \<and> (defined (o_entrypointTypes options) = None \<and> simple_name b
            \<and> entrypoint (NodeProject_new env options) = b @ ''.js''
          \<longrightarrow> manifest (node (TypeScriptProject_new env options)) ''types''
                = Some (JString (b @ ''.d.ts'')))"
proof -
  let ?A = "after_ignores env options"
  let ?e = "entrypoint (NodeProject_new env options)"
  have "manifest (node (TypeScriptProject_new env options)) ''types'' = manifest (node ?A) ''types''"
    by (rule tail_inv[where I = "\<lambda>p. manifest p ''types'' = manifest (node ?A) ''types''",
          OF assms[rule_format]])
       (simp_all add: manifest_frame TypescriptConfig_new_frame)
  also have "\<dots> = manifest (ctor_types options (ctor_scripts options (NodeProject_new env options))) ''types''"
    by (simp add: after_ignores_manifest)
  finally have m: "manifest (node (TypeScriptProject_new env options)) ''types'' =
      (if truthy_string (o_entrypointTypes options) \<or> ?e \<noteq> []
       then Some (JString (nullish (o_entrypointTypes options) (entrypoint_types ?e)))
       else manifest (NodeProject_new env options) ''types'')"
    by (simp add: ctor_types_def ctor_scripts_frame)
  have 1: "manifest (node (TypeScriptProject_new env options)) ''types''
             = Some (JString (d @ ''/'' @ b @ ''.d.ts''))"
    if "defined (o_entrypointTypes options) = None" "simple_name d" "simple_name b" "?e = d @ ''/'' @ b @ ''.js''"
    using that entrypoint_types_simple[of d b]
    by (simp add: m nullish_def defined_def truthy_string_def split: optional.splits)
  have 2: "manifest (node (TypeScriptProject_new env options)) ''types'' = Some (JString (b @ ''.d.ts''))"
    if "defined (o_entrypointTypes options) = None" "simple_name b" "?e = b @ ''.js''"
    using that entrypoint_types_simple_file[of b]
    by (simp add: m nullish_def defined_def truthy_string_def split: optional.splits)
  have 3: "manifest (node (TypeScriptProject_new env options)) ''types'' =
           (if truthy_string (o_entrypointTypes options) \<or> ?e \<noteq> []
            then Some (JString (case defined (o_entrypointTypes options) of
                                  Some given \<Rightarrow> given
                                | None \<Rightarrow> replace_backslashes
                                            (path_join (path_dirname ?e) (path_basename ?e ''.js''))
                                          @ ''.d.ts''))
            else manifest (NodeProject_new env options) ''types'')"
    by (simp add: m entrypoint_types_def nullish_def defined_def split: optional.splits)
  have 4: "truthy_string (o_entrypointTypes options) \<longleftrightarrow>
            (\<exists>given. o_entrypointTypes options = Given given \<and> given \<noteq> [])"
    by (simp add: truthy_string_def split: optional.splits)
  show ?thesis using 1 2 3 4 by blast
qed

theorem manifest_types_field_witness:
  "(\<forall>v. preserves stub_collaborators (\<lambda>p. manifest p ''types'' = v))
   \<and> simple_name ''lib'' \<and> simple_name ''index''
   \<and> manifest (node (TypeScriptProject_new stub_collaborators no_options)) ''types''
       = Some (JString ''lib/index.d.ts'')
   \<and> manifest (node (TypeScriptProject_new stub_collaborators
        (no_options\<lparr>o_entrypoint := Given ''index.js''\<rparr>))) ''types''
       = Some (JString ''index.d.ts'')
   \<and> manifest (node (TypeScriptProject_new stub_collaborators
        (no_options\<lparr>o_entrypoint := Given [], o_entrypointTypes := Given ''types/main.d.ts''\<rparr>))) ''types''
       = Some (JString ''types/main.d.ts'')
   \<and> manifest (node (TypeScriptProject_new stub_collaborators (no_options\<lparr>o_entrypoint := Given []\<rparr>))) ''types''
       = None"
proof -
  have a: "\<forall>v. preserves stub_collaborators (\<lambda>p. manifest p ''types'' = v)"
    by (simp add: preserves_def stub_collaborators_def registry_defs Let_def)
  have e: "entrypoint (NodeProject_new stub_collaborators opts) = nullish (o_entrypoint opts) ''lib/index.js''"
    "manifest (NodeProject_new stub_collaborators opts) ''types'' = None" for opts
    by (simp_all add: stub_collaborators_def stub_NodeProject_def)
  have n: "simple_name ''lib''" "simple_name ''index''"
    by (simp_all add: simple_name_def)
  have 1: "manifest (node (TypeScriptProject_new stub_collaborators no_options)) ''types''
       = Some (JString ''lib/index.d.ts'')"
  proof -
    have "defined (o_entrypointTypes no_options) = None \<and> simple_name ''lib'' \<and> simple_name ''index''
        \<and> entrypoint (NodeProject_new stub_collaborators no_options) = ''lib'' @ ''/'' @ ''index'' @ ''.js''"
      by (simp add: e n no_options_simps nullish_simps defined_def)
    from manifest_types_field [OF a, of no_options "''lib''" "''index''",
           THEN conjunct2, THEN conjunct2, THEN conjunct1, rule_format, OF this]
    show ?thesis by simp
  qed
  have 2: "manifest (node (TypeScriptProject_new stub_collaborators
        (no_options\<lparr>o_entrypoint := Given ''index.js''\<rparr>))) ''types'' = Some (JString ''index.d.ts'')"
  proof -
    let ?o = "no_options\<lparr>o_entrypoint := Given ''index.js''\<rparr>"
    have "defined (o_entrypointTypes ?o) = None \<and> simple_name ''index''
        \<and> entrypoint (NodeProject_new stub_collaborators ?o) = ''index'' @ ''.js''"
      by (simp add: e n no_options_simps nullish_simps defined_def)
    from manifest_types_field [OF a, of ?o "''lib''" "''index''",
           THEN conjunct2, THEN conjunct2, THEN conjunct2, rule_format, OF this]
    show ?thesis by simp
  qed
  have 3: "manifest (node (TypeScriptProject_new stub_collaborators
        (no_options\<lparr>o_entrypoint := Given [], o_entrypointTypes := Given ''types/main.d.ts''\<rparr>))) ''types''
       = Some (JString ''types/main.d.ts'')"
    using manifest_types_field [OF a, of "no_options\<lparr>o_entrypoint := Given [], o_entrypointTypes := Given ''types/main.d.ts''\<rparr>" "''lib''" "''index''", THEN conjunct1]
    by (simp add: e no_options_simps nullish_simps truthy_string_def defined_def)
  have 4: "manifest (node (TypeScriptProject_new stub_collaborators (no_options\<lparr>o_entrypoint := Given []\<rparr>))) ''types''
       = None"
    using manifest_types_field [OF a, of "no_options\<lparr>o_entrypoint := Given []\<rparr>" "''lib''" "''index''", THEN conjunct1]
    by (simp add: e no_options_simps nullish_simps truthy_string_def defined_def)
  show ?thesis using a n 1 2 3 4 by blast
qed

theorem manifest_types_counterexample:
  "o_entrypointTypes (no_options\<lparr>o_entrypoint := Given [], o_entrypointTypes := Given []\<rparr>) = Given []
   \<and> manifest (node (TypeScriptProject_new stub_collaborators
        (no_options\<lparr>o_entrypoint := Given [], o_entrypointTypes := Given []\<rparr>))) ''types'' = None"
  by code_simp




text \<open>
  C3, as amended. When the main \<^verbatim>\<open>TypescriptConfig\<close> is created, its options are
  the shallow, key-by-key merge of the constructor's own \<^verbatim>\<open>include\<close>,
  \<^verbatim>\<open>exclude\<close> and \<^verbatim>\<open>compilerOptions\<close> with the caller's \<^verbatim>\<open>tsconfig\<close>.
  Without a caller's \<^verbatim>\<open>tsconfig\<close> (absent or \<^verbatim>\<open>undefined\<close>) the compiler
  options are the hard-coded defaults together with the computed \<^verbatim>\<open>rootDir\<close> and
  \<^verbatim>\<open>outDir\<close>, which as a mapping is the layered merge of the specification. With a
  caller's \<^verbatim>\<open>tsconfig\<close> its \<^verbatim>\<open>compilerOptions\<close> replace the defaults and the
  computed fields as a whole. A key \<^verbatim>\<open>include\<close>, \<^verbatim>\<open>exclude\<close> or
  \<^verbatim>\<open>fileName\<close> that the caller's \<^verbatim>\<open>tsconfig\<close> has wins over the
  constructor's: with a value, the value is used; with \<^verbatim>\<open>undefined\<close>, the
  constructor's value is lost and the default of \<^verbatim>\<open>TypescriptConfig\<close> applies
  (\<^verbatim>\<open>**/*.ts\<close> for \<^verbatim>\<open>include\<close>, \<^verbatim>\<open>node_modules\<close> for \<^verbatim>\<open>exclude\<close>).
  A key that the caller's \<^verbatim>\<open>tsconfig\<close> lacks keeps the constructor's value.
\<close>

theorem main_tsconfig_shallow_merge:
  assumes "\<not> truthy_bool (o_disableTsconfig options)"
  shows "map_option tc_compilerOptions (tsconfig (TypeScriptProject_new env options)) =
           Some (case defined (o_tsconfig options) of
                   None \<Rightarrow> spread [(''rootDir'', JString (srcdir (TypeScriptProject_new env options))),
                                   (''outDir'', JString (libdir (TypeScriptProject_new env options)))]
                             compilerOptions
                 | Some given \<Rightarrow> opt_compilerOptions given)
       \<and> map_of (spread [(''rootDir'', JString src), (''outDir'', JString lib)] compilerOptions)
           = map_of (layered_compilerOptions src lib [])
       \<and> map_of (layered_compilerOptions src lib []) ''rootDir'' = Some (JString src)
       \<and> map_of (layered_compilerOptions src lib []) ''outDir'' = Some (JString lib)
       \<and> map_option tc_include (tsconfig (TypeScriptProject_new env options)) =
           Some (case defined (o_tsconfig options) of
                   None \<Rightarrow> [srcdir (TypeScriptProject_new env options) @ ''/**/*.ts'']
                 | Some given \<Rightarrow>
                     (case opt_include given of
                        Absent \<Rightarrow> [srcdir (TypeScriptProject_new env options) @ ''/**/*.ts'']
                      | Undefined \<Rightarrow> [''**/*.ts'']
                      | Given inc \<Rightarrow> inc))
       \<and> map_option tc_exclude (tsconfig (TypeScriptProject_new env options)) =
           Some (case defined (o_tsconfig options) of
                   None \<Rightarrow> [''node_modules'', libdir (TypeScriptProject_new env options)]
                 | Some given \<Rightarrow>
                     (case opt_exclude given of
                        Absent \<Rightarrow> [''node_modules'', libdir (TypeScriptProject_new env options)]
                      | Undefined \<Rightarrow> [''node_modules'']
                      | Given exc \<Rightarrow> exc))
       \<and> map_option tc_fileName (tsconfig (TypeScriptProject_new env options)) =
           Some (case defined (o_tsconfig options) of
                   None \<Rightarrow> ''tsconfig.json''
                 | Some given \<Rightarrow> nullish (opt_fileName given) ''tsconfig.json'')"
proof -
  let ?R = "TypeScriptProject_new env options"
  have dist: "distinct (map fst compilerOptions)"
    by (simp add: compilerOptions_def)
  have dom: "map_of compilerOptions ''rootDir'' = None" "map_of compilerOptions ''outDir'' = None"
    by (simp_all add: compilerOptions_def)
  have layers: "map_of (spread [(''rootDir'', JString src), (''outDir'', JString lib)] compilerOptions)
           = map_of (layered_compilerOptions src lib [])"
  proof -
    have e: "spread (spread compilerOptions [(''rootDir'', JString src), (''outDir'', JString lib)]) []
            = spread compilerOptions [(''rootDir'', JString src), (''outDir'', JString lib)]"
      by (simp add: spread_def)
    have r: "map_of (layered_compilerOptions src lib [])
            = map_of compilerOptions ++ map_of [(''rootDir'', JString src), (''outDir'', JString lib)]"
      by (simp add: layered_compilerOptions_def e map_of_spread)
    have l: "map_of (spread [(''rootDir'', JString src), (''outDir'', JString lib)] compilerOptions)
            = map_of [(''rootDir'', JString src), (''outDir'', JString lib)] ++ map_of compilerOptions"
      by (rule map_of_spread[OF dist])
    show ?thesis
      unfolding l r using dom by (auto simp add: fun_eq_iff map_add_def split: option.splits)
  qed
  have keys: "map_of (layered_compilerOptions src lib []) ''rootDir'' = Some (JString src)"
    "map_of (layered_compilerOptions src lib []) ''outDir'' = Some (JString lib)"
    using dom by (simp_all add: layers[symmetric] map_of_spread dist map_add_def)
  have t: "tsconfig ?R = Some (fst (TypescriptConfig_new
             (main_tsconfig_options options (ctor_fields env options)) (NodeProject_new env options)))"
    using assms
    by (simp add: TypeScriptProject_new_tail ctor_field_simps after_ignores_def Let_def
        fst_TypescriptConfig_new main_tsconfig_options_def ctor_fields_def)
  have d: "srcdir ?R = nullish (o_srcdir options) ''src''" "libdir ?R = nullish (o_libdir options) ''lib''"
    by (simp_all add: TypeScriptProject_new_tail ctor_field_simps after_ignores_fields)
  show ?thesis
    unfolding t d
    by (simp add: layers keys fst_TypescriptConfig_new main_tsconfig_options_def
        spread_TypescriptConfigOptions_def ctor_fields_def spread_key_def nullish_def
        split: option.splits optional.splits)
qed

theorem main_tsconfig_shallow_merge_witness:
  "\<not> truthy_bool (o_disableTsconfig no_options)
   \<and> map_option (\<lambda>c. map_of (tc_compilerOptions c) ''strict'')
        (tsconfig (TypeScriptProject_new stub_collaborators no_options)) = Some (Some (JBool True))
   \<and> map_option (\<lambda>c. map_of (tc_compilerOptions c) ''outDir'')
        (tsconfig (TypeScriptProject_new stub_collaborators no_options)) = Some (Some (JString ''lib''))
   \<and> map_option tc_compilerOptions (tsconfig (TypeScriptProject_new stub_collaborators
        (no_options\<lparr>o_tsconfig := Given \<lparr>opt_fileName = Absent, opt_include = Given [''lib/*.ts''],
            opt_exclude = Absent, opt_compilerOptions = [(''noEmit'', JBool True)]\<rparr>\<rparr>)))
       = Some [(''noEmit'', JBool True)]
   \<and> map_option tc_include (tsconfig (TypeScriptProject_new stub_collaborators
        (no_options\<lparr>o_tsconfig := Given \<lparr>opt_fileName = Absent, opt_include = Given [''lib/*.ts''],
            opt_exclude = Absent, opt_compilerOptions = [(''noEmit'', JBool True)]\<rparr>\<rparr>)))
       = Some [''lib/*.ts'']
   \<and> map_option tc_exclude (tsconfig (TypeScriptProject_new stub_collaborators
        (no_options\<lparr>o_tsconfig := Given \<lparr>opt_fileName = Absent, opt_include = Given [''lib/*.ts''],
            opt_exclude = Absent, opt_compilerOptions = [(''noEmit'', JBool True)]\<rparr>\<rparr>)))
       = Some [''node_modules'', ''lib'']
   \<and> map_option tc_include (tsconfig (TypeScriptProject_new stub_collaborators
        (no_options\<lparr>o_tsconfig := Given \<lparr>opt_fileName = Undefined, opt_include = Undefined,
            opt_exclude = Undefined, opt_compilerOptions = []\<rparr>\<rparr>)))
       = Some [''**/*.ts'']
   \<and> map_option tc_exclude (tsconfig (TypeScriptProject_new stub_collaborators
        (no_options\<lparr>o_tsconfig := Given \<lparr>opt_fileName = Undefined, opt_include = Undefined,
            opt_exclude = Undefined, opt_compilerOptions = []\<rparr>\<rparr>)))
       = Some [''node_modules'']
   \<and> map_option tc_fileName (tsconfig (TypeScriptProject_new stub_collaborators
        (no_options\<lparr>o_tsconfig := Given \<lparr>opt_fileName = Undefined, opt_include = Undefined,
            opt_exclude = Undefined, opt_compilerOptions = []\<rparr>\<rparr>)))
       = Some ''tsconfig.json''
   \<and> map_option tc_include (tsconfig (TypeScriptProject_new stub_collaborators
        (no_options\<lparr>o_tsconfig := Undefined\<rparr>)))
       = Some [''src/**/*.ts'']"
proof -
  let ?o = "no_options\<lparr>o_tsconfig := Given \<lparr>opt_fileName = Absent, opt_include = Given [''lib/*.ts''],
            opt_exclude = Absent, opt_compilerOptions = [(''noEmit'', JBool True)]\<rparr>\<rparr>"
  let ?u = "no_options\<lparr>o_tsconfig := Given \<lparr>opt_fileName = Undefined, opt_include = Undefined,
            opt_exclude = Undefined, opt_compilerOptions = []\<rparr>\<rparr>"
  let ?v = "no_options\<lparr>o_tsconfig := Undefined\<rparr>"
  have a: "\<not> truthy_bool (o_disableTsconfig no_options)" "\<not> truthy_bool (o_disableTsconfig ?o)"
    "\<not> truthy_bool (o_disableTsconfig ?u)" "\<not> truthy_bool (o_disableTsconfig ?v)"
    by (simp_all add: truthy_bool_def no_options_simps)
  have d: "srcdir (TypeScriptProject_new stub_collaborators opts) = nullish (o_srcdir opts) ''src''"
    "libdir (TypeScriptProject_new stub_collaborators opts) = nullish (o_libdir opts) ''lib''" for opts
    by (simp_all add: TypeScriptProject_new_tail ctor_field_simps after_ignores_fields)
  have s: "map_of (spread [(''rootDir'', JString ''src''), (''outDir'', JString ''lib'')] compilerOptions) ''strict''
             = Some (JBool True)"
    "map_of (spread [(''rootDir'', JString ''src''), (''outDir'', JString ''lib'')] compilerOptions) ''outDir''
             = Some (JString ''lib'')"
    "map_of (layered_compilerOptions ''src'' ''lib'' []) ''strict'' = Some (JBool True)"
    by code_simp+
  have 1: "map_option tc_compilerOptions (tsconfig (TypeScriptProject_new stub_collaborators no_options)) =
      Some (spread [(''rootDir'', JString ''src''), (''outDir'', JString ''lib'')] compilerOptions)"
    using main_tsconfig_shallow_merge [OF a(1), of stub_collaborators]
    by (simp add: d no_options_simps nullish_simps defined_def)
  have 2: "map_option (\<lambda>c. map_of (tc_compilerOptions c) k)
        (tsconfig (TypeScriptProject_new stub_collaborators no_options)) =
      Some (map_of (spread [(''rootDir'', JString ''src''), (''outDir'', JString ''lib'')] compilerOptions) k)" for k
    using 1 by (cases "tsconfig (TypeScriptProject_new stub_collaborators no_options)") simp_all
  have 3: "map_option tc_compilerOptions (tsconfig (TypeScriptProject_new stub_collaborators ?o))
             = Some [(''noEmit'', JBool True)]
         \<and> map_option tc_include (tsconfig (TypeScriptProject_new stub_collaborators ?o)) = Some [''lib/*.ts'']
         \<and> map_option tc_exclude (tsconfig (TypeScriptProject_new stub_collaborators ?o))
             = Some [''node_modules'', ''lib'']"
    using main_tsconfig_shallow_merge [OF a(2), of stub_collaborators]
    by (simp add: d no_options_simps nullish_simps defined_def)
  have 4: "map_option tc_include (tsconfig (TypeScriptProject_new stub_collaborators ?u)) = Some [''**/*.ts'']
         \<and> map_option tc_exclude (tsconfig (TypeScriptProject_new stub_collaborators ?u)) = Some [''node_modules'']
         \<and> map_option tc_fileName (tsconfig (TypeScriptProject_new stub_collaborators ?u)) = Some ''tsconfig.json''"
    using main_tsconfig_shallow_merge [OF a(3), of stub_collaborators]
    by (simp add: d no_options_simps nullish_simps defined_def)
  have 5: "map_option tc_include (tsconfig (TypeScriptProject_new stub_collaborators ?v)) = Some [''src/**/*.ts'']"
    using main_tsconfig_shallow_merge [OF a(4), of stub_collaborators]
    by (simp add: d no_options_simps nullish_simps defined_def)
  show ?thesis
    using a(1) 3 4 5 by (simp add: 2 s)
qed

theorem compilerOptions_merge_counterexample:
  "map_option (\<lambda>c. map_of (tc_compilerOptions c) ''strict'')
     (tsconfig (TypeScriptProject_new stub_collaborators
        (no_options\<lparr>o_tsconfig := Given \<lparr>opt_fileName = Absent, opt_include = Absent, opt_exclude = Absent,
            opt_compilerOptions = [(''noEmit'', JBool True)]\<rparr>\<rparr>))) = Some None
   \<and> map_of (layered_compilerOptions ''src'' ''lib'' [(''noEmit'', JBool True)]) ''strict'' = Some (JBool True)"
  by code_simp

text \<open>
  C4. With the test tooling enabled a second \<^verbatim>\<open>TypescriptConfig\<close> is constructed:
  its file name is \<^verbatim>\<open>tsconfig.jest.json\<close>, it includes the source and the test
  directory, excludes only \<^verbatim>\<open>node_modules\<close>, and its compiler options have neither
  \<^verbatim>\<open>rootDir\<close> nor \<^verbatim>\<open>outDir\<close>. It is handed to the test runner (unless the
  caller's \<^verbatim>\<open>jestOptions\<close> name another one) and its emitter is registered. The
  first instance is what it is without the second: the project's \<^verbatim>\<open>tsconfig\<close> is
  the same as with the test tooling disabled, and its emitter stays registered. Assumed
  of the constructors of the other files: they remove no emitter.
\<close>

theorem jest_tsconfig_is_independent:
  assumes "nullish (o_jest options) True"
    and "\<forall>f. preserves env (\<lambda>p. f \<in> set (files p))"
  shows "tc_fileName (fst (TypescriptConfig_new (jest_tsconfig_options (ctor_fields env options)) p))
           = ''tsconfig.jest.json''
       \<and> tc_include (fst (TypescriptConfig_new (jest_tsconfig_options (ctor_fields env options)) p))
           = [srcdir (TypeScriptProject_new env options) @ ''/**/*.ts'',
              testdir (TypeScriptProject_new env options) @ ''/**/*.ts'']
       \<and> tc_exclude (fst (TypescriptConfig_new (jest_tsconfig_options (ctor_fields env options)) p))
           = [''node_modules'']
       \<and> map_of (tc_compilerOptions
            (fst (TypescriptConfig_new (jest_tsconfig_options (ctor_fields env options)) p))) ''rootDir'' = None
       \<and> map_of (tc_compilerOptions
            (fst (TypescriptConfig_new (jest_tsconfig_options (ctor_fields env options)) p))) ''outDir'' = None
       \<and> jest (TypeScriptProject_new env options)
           = Some (spread_JestOptions
                     (fst (TypescriptConfig_new (jest_tsconfig_options (ctor_fields env options)) p))
                     (o_jestOptions options))
       \<and> tc_file (fst (TypescriptConfig_new (jest_tsconfig_options (ctor_fields env options)) p))
           \<in> set (files (node (TypeScriptProject_new env options)))
       \<and> tsconfig (TypeScriptProject_new env options)
           = tsconfig (TypeScriptProject_new env (options\<lparr>o_jest := Given False\<rparr>))
       \<and> (case tsconfig (TypeScriptProject_new env options) of
            None \<Rightarrow> truthy_bool (o_disableTsconfig options)
          | Some c \<Rightarrow> tc_file c \<in> set (files (node (TypeScriptProject_new env options))))"
proof -
  let ?R = "TypeScriptProject_new env options"
  let ?A = "after_ignores env options"
  let ?J = "fst (TypescriptConfig_new (jest_tsconfig_options (ctor_fields env options)) p)"
  have J: "fst (TypescriptConfig_new (jest_tsconfig_options ?A) q) = ?J" for q
    by (simp add: fst_TypescriptConfig_new jest_tsconfig_options_after_ignores)
  have d: "srcdir ?R = nullish (o_srcdir options) ''src''" "testdir ?R = nullish (o_testdir options) ''test''"
    by (simp_all add: TypeScriptProject_new_tail ctor_field_simps after_ignores_fields)
  have fields: "tc_fileName ?J = ''tsconfig.jest.json''"
    "tc_include ?J = [srcdir ?R @ ''/**/*.ts'', testdir ?R @ ''/**/*.ts'']"
    "tc_exclude ?J = [''node_modules'']"
    "map_of (tc_compilerOptions ?J) ''rootDir'' = None"
    "map_of (tc_compilerOptions ?J) ''outDir'' = None"
    by (simp_all add: d fst_TypescriptConfig_new jest_tsconfig_options_def ctor_fields_def
        nullish_simps compilerOptions_def)
  have jest: "jest ?R = Some (spread_JestOptions ?J (o_jestOptions options))"
    using assms(1) by (simp add: TypeScriptProject_new_tail ctor_field_simps J)
  have "tc_file (fst (TypescriptConfig_new (jest_tsconfig_options ?A) (node ?A)))
          \<in> set (files (node (snd (ctor_jest env options ?A))))"
    by (rule ctor_jest_registers_file[OF assms])
  then have "tc_file ?J \<in> set (files (node (snd (ctor_jest env options ?A))))"
    by (simp only: J)
  then have second: "tc_file ?J \<in> set (files (node ?R))"
    by (rule after_jest_inv[where I = "\<lambda>q. tc_file ?J \<in> set (files q)", OF assms(2)[rule_format]])
       (simp_all add: files_frame)
  have t: "tsconfig (TypeScriptProject_new env opts) =
      (if \<not> truthy_bool (o_disableTsconfig opts)
       then Some (fst (TypescriptConfig_new
             (main_tsconfig_options opts (ctor_fields env opts)) (NodeProject_new env opts)))
       else None)" for opts
    by (simp add: TypeScriptProject_new_tail ctor_field_simps after_ignores_def Let_def
        fst_TypescriptConfig_new main_tsconfig_options_def ctor_fields_def)
  have same: "tsconfig ?R = tsconfig (TypeScriptProject_new env (options\<lparr>o_jest := Given False\<rparr>))"
    by (simp add: t fst_TypescriptConfig_new main_tsconfig_options_def ctor_fields_def)
  have first: "tc_file c \<in> set (files (node ?R))" if c: "tsconfig ?R = Some c" for c
  proof -
    from c have en: "\<not> truthy_bool (o_disableTsconfig options)" and
      c': "c = fst (TypescriptConfig_new
             (main_tsconfig_options options (ctor_fields env options)) (NodeProject_new env options))"
      by (simp_all add: t split: if_splits)
    show ?thesis
      by (rule tail_inv[where I = "\<lambda>q. tc_file c \<in> set (files q)", OF assms(2)[rule_format]])
         (use en in \<open>simp_all add: after_ignores_files c' files_frame TypescriptConfig_new_frame\<close>)
  qed
  have none: "truthy_bool (o_disableTsconfig options)" if "tsconfig ?R = None"
    using that by (simp add: t split: if_splits)
  show ?thesis
    using fields jest second same first none by (simp split: option.splits)
qed

theorem jest_tsconfig_is_independent_witness:
  "nullish (o_jest no_options) True
   \<and> (\<forall>f. preserves stub_collaborators (\<lambda>p. f \<in> set (files p)))
   \<and> map_option (map_option tc_fileName \<circ> defined \<circ> jo_typescript) (jest (TypeScriptProject_new stub_collaborators no_options))
       = Some (Some ''tsconfig.jest.json'')
   \<and> map_option (map_option tc_include \<circ> defined \<circ> jo_typescript) (jest (TypeScriptProject_new stub_collaborators no_options))
       = Some (Some [''src/**/*.ts'', ''test/**/*.ts''])
   \<and> map jf_path (files (node (TypeScriptProject_new stub_collaborators no_options)))
       = [''tsconfig.json'', ''tsconfig.jest.json'', ''.eslintrc.json'']
   \<and> map_option tc_fileName (tsconfig (TypeScriptProject_new stub_collaborators no_options))
       = Some ''tsconfig.json''
   \<and> tsconfig (TypeScriptProject_new stub_collaborators no_options)
       = tsconfig (TypeScriptProject_new stub_collaborators (no_options\<lparr>o_jest := Given False\<rparr>))"
proof -
  let ?R = "TypeScriptProject_new stub_collaborators no_options"
  have a: "nullish (o_jest no_options) True" by (simp add: no_options_simps nullish_simps)
  have b: "\<forall>f. preserves stub_collaborators (\<lambda>p. f \<in> set (files p))"
    by (simp add: preserves_def stub_collaborators_def registry_defs Let_def)
  have d: "srcdir ?R = ''src''" "testdir ?R = ''test''"
    by (simp_all add: TypeScriptProject_new_tail ctor_field_simps after_ignores_fields
        no_options_simps nullish_simps)
  have f: "map jf_path (files (node ?R)) = [''tsconfig.json'', ''tsconfig.jest.json'', ''.eslintrc.json'']"
    by code_simp
  have n: "map_option tc_fileName (tsconfig ?R) = Some ''tsconfig.json''"
    by code_simp
  show ?thesis
    using a b f n jest_tsconfig_is_independent [OF a b, of "stub_NodeProject no_options"]
    by (simp add: d spread_JestOptions_def no_options_simps defined_def)
qed

text \<open>
  C9. \<^verbatim>\<open>SampleCode.synthesize\<close> writes the sample source file only when the source
  directory does not exist at all. The guard is true for every existing directory,
  whatever it holds, so when the directory exists, even with no \<^verbatim>\<open>.ts\<close> file in
  it, the file system is returned as it was. When the source directory is missing, the
  sample is written into it, and the same guard on the test directory decides the rest:
  if the test directory exists, the function returns with the source sample written and
  no test sample; if it is missing, the test sample is written too.
\<close>

theorem SampleCode_writes_only_into_missing_directories:
  "(fs_lookup fs (path_segments (path_join outdir (sc_srcdir c))) = Some (Dir es) \<longrightarrow>
      has_ts_guard (path_join outdir (sc_srcdir c)) fs = Inr True \<and> synthesize c outdir fs = Inr fs)
   \<and> (pathExistsSync (path_join outdir (sc_srcdir c)) fs \<longrightarrow>
        synthesize c outdir fs = Inr fs \<or> synthesize c outdir fs = Inl (ENOTDIR, fs))
   \<and> (\<not> pathExistsSync (path_join outdir (sc_srcdir c)) fs
        \<and> mkdirpSync (path_join outdir (sc_srcdir c)) fs = Inr fsa
        \<and> writeFileSync (path_join (path_join outdir (sc_srcdir c)) ''index.ts'') (join_lines srcCode) fsa = Inr fsb
      \<longrightarrow> fs_lookup fsb (path_segments (path_join (path_join outdir (sc_srcdir c)) ''index.ts''))
            = Some (File (join_lines srcCode))
        \<and> (fs_lookup fsb (path_segments (path_join outdir (sc_testdir c))) = Some (Dir es') \<longrightarrow>
              synthesize c outdir fs = Inr fsb)
        \<and> (\<not> pathExistsSync (path_join outdir (sc_testdir c)) fsb
              \<and> mkdirpSync (path_join outdir (sc_testdir c)) fsb = Inr fsc
              \<and> writeFileSync (path_join (path_join outdir (sc_testdir c)) ''hello.test.ts'')
                    (join_lines testCode) fsc = Inr fsd
            \<longrightarrow> synthesize c outdir fs = Inr fsd))"
proof -
  let ?src = "path_join outdir (sc_srcdir c)"
  let ?test = "path_join outdir (sc_testdir c)"
  have 1: "has_ts_guard ?src fs = Inr True \<and> synthesize c outdir fs = Inr fs"
    if "fs_lookup fs (path_segments ?src) = Some (Dir es)"
    using has_ts_guard_directory[OF that] by (simp add: synthesize_def)
  have 2: "synthesize c outdir fs = Inr fs \<or> synthesize c outdir fs = Inl (ENOTDIR, fs)"
    if "pathExistsSync ?src fs"
  proof -
    from that obtain n where n: "fs_lookup fs (path_segments ?src) = Some n"
      by (auto simp add: pathExistsSync_def)
    show ?thesis
    proof (cases n)
      case (File x)
      with n have "has_ts_guard ?src fs = Inl ENOTDIR" by (simp add: has_ts_guard_file)
      then show ?thesis by (simp add: synthesize_def)
    next
      case (Dir xs)
      with n have "has_ts_guard ?src fs = Inr True" by (simp add: has_ts_guard_directory)
      then show ?thesis by (simp add: synthesize_def)
    qed
  qed
  have 3: "fs_lookup fsb (path_segments (path_join ?src ''index.ts'')) = Some (File (join_lines srcCode))"
    if "writeFileSync (path_join ?src ''index.ts'') (join_lines srcCode) fsa = Inr fsb"
    using that by (simp add: writeFileSync_def writeFile_lookup)
  have s: "synthesize c outdir fs = synthesize_test (sc_testdir c) outdir fsb"
    if "\<not> pathExistsSync ?src fs" "mkdirpSync ?src fs = Inr fsa"
      "writeFileSync (path_join ?src ''index.ts'') (join_lines srcCode) fsa = Inr fsb"
    using that by (simp add: synthesize_def has_ts_guard_missing)
  have 4: "synthesize_test (sc_testdir c) outdir fsb = Inr fsb"
    if "fs_lookup fsb (path_segments ?test) = Some (Dir es')"
    using has_ts_guard_directory[OF that] by (simp add: synthesize_test_def)
  have 5: "synthesize_test (sc_testdir c) outdir fsb = Inr fsd"
    if "\<not> pathExistsSync ?test fsb" "mkdirpSync ?test fsb = Inr fsc"
      "writeFileSync (path_join ?test ''hello.test.ts'') (join_lines testCode) fsc = Inr fsd"
    using that by (simp add: synthesize_test_def has_ts_guard_missing)
  show ?thesis using 1 2 3 s 4 5 by auto
qed

theorem SampleCode_writes_only_into_missing_directories_witness:
  "fs_lookup (Dir [(''out'', Dir [(''src'', Dir [])])])
      (path_segments (path_join ''out'' (sc_srcdir (SampleCode ''src'' ''test'')))) = Some (Dir [])
   \<and> synthesize (SampleCode ''src'' ''test'') ''out'' (Dir [(''out'', Dir [(''src'', Dir [])])])
       = Inr (Dir [(''out'', Dir [(''src'', Dir [])])])
   \<and> \<not> pathExistsSync (path_join ''out'' (sc_srcdir (SampleCode ''src'' ''test'')))
         (Dir [(''out'', Dir [(''test'', Dir [])])])
   \<and> synthesize (SampleCode ''src'' ''test'') ''out'' (Dir [(''out'', Dir [(''test'', Dir [])])])
       = Inr (Dir [(''out'', Dir [(''test'', Dir []),
                                  (''src'', Dir [(''index.ts'', File (join_lines srcCode))])])])
   \<and> \<not> pathExistsSync (path_join ''out'' (sc_srcdir (SampleCode ''src'' ''test''))) (Dir [])
   \<and> synthesize (SampleCode ''src'' ''test'') ''out'' (Dir [])
       = Inr (Dir [(''out'', Dir [(''src'', Dir [(''index.ts'', File (join_lines srcCode))]),
                                  (''test'', Dir [(''hello.test.ts'', File (join_lines testCode))])])])"
proof -
  let ?c = "SampleCode ''src'' ''test''"
  let ?F1 = "Dir [(''out'', Dir [(''src'', Dir [])])]"
  let ?F2 = "Dir [(''out'', Dir [(''test'', Dir [])])]"
  let ?F2a = "Dir [(''out'', Dir [(''test'', Dir []), (''src'', Dir [])])]"
  let ?F2b = "Dir [(''out'', Dir [(''test'', Dir []),
                                  (''src'', Dir [(''index.ts'', File (join_lines srcCode))])])]"
  let ?G1 = "Dir [(''out'', Dir [(''src'', Dir [])])]"
  let ?G2 = "Dir [(''out'', Dir [(''src'', Dir [(''index.ts'', File (join_lines srcCode))])])]"
  let ?G3 = "Dir [(''out'', Dir [(''src'', Dir [(''index.ts'', File (join_lines srcCode))]),
                                 (''test'', Dir [])])]"
  let ?G4 = "Dir [(''out'', Dir [(''src'', Dir [(''index.ts'', File (join_lines srcCode))]),
                                 (''test'', Dir [(''hello.test.ts'', File (join_lines testCode))])])]"
  have a: "fs_lookup ?F1 (path_segments (path_join ''out'' (sc_srcdir ?c))) = Some (Dir [])"
    by code_simp
  have b: "\<not> pathExistsSync (path_join ''out'' (sc_srcdir ?c)) ?F2"
    by code_simp
  have c: "mkdirpSync (path_join ''out'' (sc_srcdir ?c)) ?F2 = Inr ?F2a"
    by code_simp
  have d: "writeFileSync (path_join (path_join ''out'' (sc_srcdir ?c)) ''index.ts'') (join_lines srcCode) ?F2a
             = Inr ?F2b"
    by code_simp
  have e: "fs_lookup ?F2b (path_segments (path_join ''out'' (sc_testdir ?c))) = Some (Dir [])"
    by code_simp
  have g: "\<not> pathExistsSync (path_join ''out'' (sc_srcdir ?c)) (Dir [])"
    by code_simp
  have h: "mkdirpSync (path_join ''out'' (sc_srcdir ?c)) (Dir []) = Inr ?G1"
    by code_simp
  have i: "writeFileSync (path_join (path_join ''out'' (sc_srcdir ?c)) ''index.ts'') (join_lines srcCode) ?G1
             = Inr ?G2"
    by code_simp
  have j: "\<not> pathExistsSync (path_join ''out'' (sc_testdir ?c)) ?G2"
    by code_simp
  have k: "mkdirpSync (path_join ''out'' (sc_testdir ?c)) ?G2 = Inr ?G3"
    by code_simp
  have l: "writeFileSync (path_join (path_join ''out'' (sc_testdir ?c)) ''hello.test.ts'')
             (join_lines testCode) ?G3 = Inr ?G4"
    by code_simp
  have 1: "synthesize ?c ''out'' ?F1 = Inr ?F1"
    using SampleCode_writes_only_into_missing_directories
            [where fs = ?F1 and outdir = "''out''" and c = ?c and es = "[]"] a
    by blast
  have 2: "synthesize ?c ''out'' ?F2 = Inr ?F2b"
    using SampleCode_writes_only_into_missing_directories
            [where fs = ?F2 and outdir = "''out''" and c = ?c and fsa = ?F2a and fsb = ?F2b and es' = "[]"]
          b c d e
    by blast
  have 3: "synthesize ?c ''out'' (Dir []) = Inr ?G4"
    using SampleCode_writes_only_into_missing_directories
            [where fs = "Dir []" and outdir = "''out''" and c = ?c and fsa = ?G1 and fsb = ?G2
               and fsc = ?G3 and fsd = ?G4]
          g h i j k l
    by blast
  show ?thesis using a b g 1 2 3 by blast
qed

end
